theory Spec2Isabelle
  imports Main "HOL-Library.Word"
begin

section \<open>Cluster membership (lxd/cluster/membership.go)\<close>

text \<open>
  A shallow embedding of the membership operations of \<^verbatim>\<open>lxd/cluster/membership.go\<close>.
  Go values become HOL values, the two databases, the var directory and the leader's
  RPC endpoint become fields of an explicit state, every \<^verbatim>\<open>return err\<close> and every
  \<^verbatim>\<open>panic\<close> becomes a branch of the result type. Calls into other packages
  (\<^verbatim>\<open>db\<close>, \<^verbatim>\<open>node\<close>, the gateway, go-dqlite, \<^verbatim>\<open>os\<close>) can fail; which of them fail
  in a given run is read from the environment \<open>env\<close>.
\<close>

subsection \<open>Data model\<close>

text \<open>\<^verbatim>\<open>db.RaftRole\<close>: the three roles of go-dqlite's \<^verbatim>\<open>client.NodeRole\<close>.\<close>

datatype RaftRole = RaftVoter | RaftStandBy | RaftSpare

text \<open>
  \<^verbatim>\<open>db.NodeInfo\<close>, a row of the replicated \<^verbatim>\<open>nodes\<close> table, with the fields this file
  reads. \<open>ID\<close> is an \<^verbatim>\<open>int64\<close>; \<open>Heartbeat\<close> is a \<^verbatim>\<open>time.Time\<close>, kept as a number of
  nanoseconds counted from Go's zero time, so that the zero \<^verbatim>\<open>NodeInfo\<close> has heartbeat 0.
\<close>

record NodeInfo =
  ID :: "64 word"
  Name :: string
  Address :: string
  Schema :: int
  APIExtensions :: int
  Heartbeat :: int
  Roles :: "string list"
  Architecture :: int

text \<open>\<^verbatim>\<open>db.RaftNode\<close> (go-dqlite's \<^verbatim>\<open>client.NodeInfo\<close>); \<open>ID\<close> is a \<^verbatim>\<open>uint64\<close>.\<close>

record RaftNode =
  ID :: "64 word"
  Address :: string
  Role :: RaftRole

text \<open>
  Errors. \<open>Errorf\<close> is \<^verbatim>\<open>fmt.Errorf\<close> with its message formatted; \<open>Errorf_v\<close> keeps
  the integer of a \<^verbatim>\<open>%v\<close> apart (the two version messages also print \<^verbatim>\<open>version.Version\<close>,
  a constant of another package); \<open>Wrap\<close> is \<^verbatim>\<open>errors.Wrap\<close>/\<^verbatim>\<open>Wrapf\<close> of
  \<^verbatim>\<open>github.com/pkg/errors\<close> around a non-nil error. Errors of collaborators are
  arbitrary values of this type.
\<close>

datatype error =
    Errorf string
  | Errorf_v string int
  | Wrap error string

text \<open>The application role tag \<^verbatim>\<open>db.ClusterRoleDatabase\<close>.\<close>

definition ClusterRoleDatabase :: string where
  "ClusterRoleDatabase = ''database''"

text \<open>The RPCs of go-dqlite's client that this file issues to the leader.\<close>

datatype rpc =
    Add RaftNode
  | Assign "64 word" RaftRole
  | Remove "64 word"

text \<open>The node-local database: the \<^verbatim>\<open>cluster.https_address\<close> key and the \<^verbatim>\<open>raft_nodes\<close> table.\<close>

record NodeDB =
  cluster_https_address :: string
  raft_nodes :: "RaftNode list"

text \<open>
  The replicated database: the rows of \<^verbatim>\<open>nodes\<close>, the ids flagged pending and the
  \<^verbatim>\<open>cluster.offline_threshold\<close> setting (a duration in nanoseconds).
\<close>

record ClusterDB =
  nodes :: "NodeInfo list"
  pending :: "64 word set"
  offline_threshold :: int

text \<open>
  What the operations act on: the names present in \<^verbatim>\<open>state.OS.VarDir\<close>, the two
  databases, the configuration held by the consensus log (what
  \<^verbatim>\<open>gateway.currentRaftNodes\<close> reads), the RPCs issued to the leader (oldest first), the
  addresses probed by \<^verbatim>\<open>hasConnectivity\<close>, the addresses a heartbeat was sent to,
  whether the cluster database is locked by \<^verbatim>\<open>EnterExclusive\<close>, whether the global
  database directory holds raft data, and the certificate bound to the gateway.
\<close>

record state =
  VarDir :: "string set"
  Node :: NodeDB
  Cluster :: ClusterDB
  Raft :: "RaftNode list"
  RPCs :: "rpc list"
  Probes :: "string list"
  Heartbeats :: "string list"
  Exclusive :: bool
  GlobalDatabaseDir :: bool
  Cert :: string

text \<open>
  The environment of a run. \<open>fault\<close> names the collaborator calls that fail and with
  which error (\<open>None\<close>: the call succeeds); a call that fails does so each time it is
  made in the run. The other fields are functions of other packages that the spec
  leaves open:
  \<^item> \<open>now\<close>: \<^verbatim>\<open>time.Now()\<close>;
  \<^item> \<open>NodeAddWithArch\<close>: the registry insert of \<^verbatim>\<open>db.ClusterTx\<close>, returning the new id;
  \<^item> \<open>Connect\<close>, \<open>GetServer\<close>: the TLS dial and the server-info request of Rebalance's probe;
  \<^item> \<open>hasConnectivity\<close>: the probe of \<^verbatim>\<open>isMemberOnline\<close>;
  \<^item> \<open>ArchitectureName\<close>: \<^verbatim>\<open>osarch.ArchitectureName\<close>;
  \<^item> \<open>CompareVersions\<close>: \<^verbatim>\<open>util.CompareVersions\<close>;
  \<^item> \<open>Sub\<close>: the text of \<^verbatim>\<open>now.Sub(heartbeat)\<close>.
\<close>

record env =
  fault :: "string \<Rightarrow> error option"
  now :: int
  NodeAddWithArch :: "string \<Rightarrow> string \<Rightarrow> int \<Rightarrow> ClusterDB \<Rightarrow> (error + 64 word) \<times> ClusterDB"
  Connect :: "string \<Rightarrow> error option"
  GetServer :: "string \<Rightarrow> error option"
  hasConnectivity :: "string \<Rightarrow> bool"
  ArchitectureName :: "int \<Rightarrow> error + string"
  CompareVersions :: "int \<times> int \<Rightarrow> int \<times> int \<Rightarrow> error + int"
  Sub :: "int \<Rightarrow> int \<Rightarrow> string"

subsection \<open>Constants\<close>

text \<open>
  \<^verbatim>\<open>const MaxVoters = 3\<close> and \<^verbatim>\<open>const MaxStandBys = 2\<close>, the last two lines of the
  file: "We currently aim at having 3 voter nodes and 2 stand-by."
\<close>

definition MaxVoters :: nat where
  "MaxVoters = 3"

definition MaxStandBys :: nat where
  "MaxStandBys = 2"

subsection \<open>Collaborators\<close>

text \<open>
  \<^verbatim>\<open>errors.Wrap(err, msg)\<close> and \<^verbatim>\<open>errors.Wrapf(err, format, ...)\<close> of
  \<^verbatim>\<open>github.com/pkg/errors\<close>: "If err is nil, Wrap returns nil."
\<close>

definition Wrapf :: "error option \<Rightarrow> string \<Rightarrow> error option" where
  "Wrapf err msg = (case err of None \<Rightarrow> None | Some e \<Rightarrow> Some (Wrap e msg))"

text \<open>
  \<^verbatim>\<open>Transaction(f)\<close> of \<^verbatim>\<open>db.Node\<close> and \<^verbatim>\<open>db.Cluster\<close>: runs \<open>f\<close> on the database;
  when \<open>f\<close> returns an error the changes are rolled back. \<open>f\<close> also yields the values
  the closure assigns to variables of the caller.
\<close>

definition Transaction :: "'db \<Rightarrow> ('db \<Rightarrow> (error + 'a) \<times> 'db) \<Rightarrow> (error + 'a) \<times> 'db" where
  "Transaction db f = (case f db of
     (Inl e, _) \<Rightarrow> (Inl e, db)
   | (Inr v, db') \<Rightarrow> (Inr v, db'))"

text \<open>Modelled from the spec: \<^verbatim>\<open>tx.Nodes()\<close>, the rows of the registry.\<close>

definition Nodes :: "env \<Rightarrow> ClusterDB \<Rightarrow> error + NodeInfo list" where
  "Nodes env tx = (case fault env ''tx.Nodes'' of Some e \<Rightarrow> Inl e | None \<Rightarrow> Inr (nodes tx))"

text \<open>Modelled from the spec: \<^verbatim>\<open>tx.NodePending(id, pending)\<close> sets or clears the pending flag.\<close>

definition NodePending :: "env \<Rightarrow> 64 word \<Rightarrow> bool \<Rightarrow> ClusterDB \<Rightarrow> error option \<times> ClusterDB" where
  "NodePending env nid p tx = (case fault env ''tx.NodePending'' of
     Some e \<Rightarrow> (Some e, tx)
   | None \<Rightarrow> (None, tx\<lparr>pending := (if p then insert nid (pending tx) else pending tx - {nid})\<rparr>))"

text \<open>\<^verbatim>\<open>gateway.currentRaftNodes()\<close>: the configuration in the consensus log.\<close>

definition gateway_currentRaftNodes :: "env \<Rightarrow> state \<Rightarrow> error + RaftNode list" where
  "gateway_currentRaftNodes env s = (case fault env ''gateway.currentRaftNodes'' of
     Some e \<Rightarrow> Inl e
   | None \<Rightarrow> Inr (Raft s))"

subsection \<open>Preconditions for Accept\<close>

text \<open>
  The loop of \<^verbatim>\<open>membershipCheckClusterStateForAccept\<close>: the four tests in the source's
  order, returning at the first that fails.
\<close>

fun check_accept_loop :: "NodeInfo list \<Rightarrow> string \<Rightarrow> string \<Rightarrow> int \<Rightarrow> int \<Rightarrow> error option" where
  "check_accept_loop [] name address schema api = None"
| "check_accept_loop (node # rest) name address schema api =
     (if NodeInfo.Name node = name then
        Some (Errorf (''The cluster already has a member with name: '' @ name))
      else if NodeInfo.Address node = address then
        Some (Errorf (''The cluster already has a member with address: '' @ address))
      else if NodeInfo.Schema node \<noteq> schema then
        Some (Errorf_v ''The joining server version doesn't (expected %s with DB schema %v)'' schema)
      else if NodeInfo.APIExtensions node \<noteq> api then
        Some (Errorf_v ''The joining server version doesn't (expected %s with API count %v)'' api)
      else check_accept_loop rest name address schema api)"

definition membershipCheckClusterStateForAccept ::
  "env \<Rightarrow> ClusterDB \<Rightarrow> string \<Rightarrow> string \<Rightarrow> int \<Rightarrow> int \<Rightarrow> error option" where
  "membershipCheckClusterStateForAccept env tx name address schema api =
     (case Nodes env tx of
        Inl err \<Rightarrow> Some (Wrap err ''Failed to fetch current cluster nodes'')
      | Inr ns \<Rightarrow>
          if length ns = 1 \<and> NodeInfo.Address (ns ! 0) = ''0.0.0.0'' then
            Some (Errorf ''Clustering isn't enabled'')
          else check_accept_loop ns name address schema api)"

subsection \<open>Accept\<close>

text \<open>The counting loop of \<^verbatim>\<open>Accept\<close>: \<open>voters\<close> and \<open>standbys\<close> start at 0.\<close>

fun count_roles :: "RaftNode list \<Rightarrow> nat \<times> nat \<Rightarrow> nat \<times> nat" where
  "count_roles [] (voters, standbys) = (voters, standbys)"
| "count_roles (node # rest) (voters, standbys) =
     (case Role node of
        RaftVoter \<Rightarrow> count_roles rest (voters + 1, standbys)
      | RaftStandBy \<Rightarrow> count_roles rest (voters, standbys + 1)
      | RaftSpare \<Rightarrow> count_roles rest (voters, standbys))"

text \<open>The body of the transaction of \<^verbatim>\<open>Accept\<close>; it yields the id of the new row.\<close>

definition Accept_tx ::
  "env \<Rightarrow> string \<Rightarrow> string \<Rightarrow> int \<Rightarrow> int \<Rightarrow> int \<Rightarrow> ClusterDB \<Rightarrow> (error + 64 word) \<times> ClusterDB" where
  "Accept_tx env name address schema api arch tx =
     (case membershipCheckClusterStateForAccept env tx name address schema api of
        Some err \<Rightarrow> (Inl err, tx)
      | None \<Rightarrow>
          (case NodeAddWithArch env name address arch tx of
             (Inl err, tx1) \<Rightarrow> (Inl (Wrap err ''Failed to insert new node into the database''), tx1)
           | (Inr nid, tx1) \<Rightarrow>
               (case NodePending env nid True tx1 of
                  (Some err, tx2) \<Rightarrow> (Inl (Wrap err ''Failed to mark the new node as pending''), tx2)
                | (None, tx2) \<Rightarrow> (Inr nid, tx2))))"

definition Accept ::
  "env \<Rightarrow> string \<Rightarrow> string \<Rightarrow> int \<Rightarrow> int \<Rightarrow> int \<Rightarrow> state \<Rightarrow> (error + RaftNode list) \<times> state" where
  "Accept env name address schema api arch s =
     (if name = [] then (Inl (Errorf ''node name must not be empty''), s)
      else if address = [] then (Inl (Errorf ''node address must not be empty''), s)
      else
        (case Transaction (Cluster s) (Accept_tx env name address schema api arch) of
           (Inl err, _) \<Rightarrow> (Inl err, s)
         | (Inr nid, db) \<Rightarrow>
             (let s1 = s\<lparr>Cluster := db\<rparr> in
              case gateway_currentRaftNodes env s1 of
                Inl err \<Rightarrow> (Inl (Wrap err ''Failed to get raft nodes from the log''), s1)
              | Inr ns \<Rightarrow>
                  (let count = length ns;
                       (voters, standbys) = count_roles ns (0, 0);
                       node = \<lparr>ID = nid, Address = address, Role = RaftSpare\<rparr>;
                       node = (if count > 1 \<and> voters < MaxVoters then node\<lparr>Role := RaftVoter\<rparr>
                               else if standbys < MaxStandBys then node\<lparr>Role := RaftStandBy\<rparr>
                               else node)
                   in (Inr (ns @ [node]), s1)))))"

subsection \<open>Liveness\<close>

text \<open>
  Modelled from the spec: \<^verbatim>\<open>NodeInfo.IsOffline(threshold)\<close> of the \<^verbatim>\<open>db\<close> package: the
  member's last heartbeat is older than the offline threshold.
\<close>

definition IsOffline :: "env \<Rightarrow> NodeInfo \<Rightarrow> int \<Rightarrow> bool" where
  "IsOffline env n threshold = (NodeInfo.Heartbeat n < now env - threshold)"

text \<open>Modelled from the spec: \<^verbatim>\<open>tx.NodeOfflineThreshold()\<close> reads the cluster-wide threshold.\<close>

definition NodeOfflineThreshold :: "env \<Rightarrow> ClusterDB \<Rightarrow> error + int" where
  "NodeOfflineThreshold env tx = (case fault env ''tx.NodeOfflineThreshold'' of
     Some e \<Rightarrow> Inl e
   | None \<Rightarrow> Inr (offline_threshold tx))"

text \<open>
  Modelled from the spec: \<^verbatim>\<open>tx.NodeByAddress(address)\<close> fetches the member row with the
  given address, and fails when there is none.
\<close>

definition NodeByAddress :: "env \<Rightarrow> ClusterDB \<Rightarrow> string \<Rightarrow> error + NodeInfo" where
  "NodeByAddress env tx address = (case fault env ''tx.NodeByAddress'' of
     Some e \<Rightarrow> Inl e
   | None \<Rightarrow>
       (case find (\<lambda>n. NodeInfo.Address n = address) (nodes tx) of
          None \<Rightarrow> Inl (Errorf ''No such object'')
        | Some n \<Rightarrow> Inr n))"

text \<open>The body of the transaction of \<^verbatim>\<open>isMemberOnline\<close>; it yields \<open>online\<close>.\<close>

definition isMemberOnline_tx :: "env \<Rightarrow> string \<Rightarrow> ClusterDB \<Rightarrow> (error + bool) \<times> ClusterDB" where
  "isMemberOnline_tx env address tx =
     (let online = True in
      case NodeOfflineThreshold env tx of
        Inl err \<Rightarrow> (Inl err, tx)
      | Inr offlineThreshold \<Rightarrow>
          (case NodeByAddress env tx address of
             Inl err \<Rightarrow> (Inl err, tx)
           | Inr n \<Rightarrow> (Inr (if IsOffline env n offlineThreshold then False else online), tx)))"

text \<open>
  \<^verbatim>\<open>isMemberOnline\<close>. Go's \<^verbatim>\<open>&&\<close> evaluates \<^verbatim>\<open>hasConnectivity\<close> only when \<open>online\<close>
  is false; each evaluation is recorded in \<open>Probes\<close>.
\<close>

definition isMemberOnline :: "env \<Rightarrow> string \<Rightarrow> state \<Rightarrow> (error + bool) \<times> state" where
  "isMemberOnline env address s =
     (case Transaction (Cluster s) (isMemberOnline_tx env address) of
        (Inl err, _) \<Rightarrow> (Inl err, s)
      | (Inr online, db) \<Rightarrow>
          (let s1 = s\<lparr>Cluster := db\<rparr> in
           if \<not> online then
             (let s2 = s1\<lparr>Probes := Probes s1 @ [address]\<rparr> in
              if hasConnectivity env address then (Inr True, s2) else (Inr online, s2))
           else (Inr online, s1)))"

subsection \<open>Handover\<close>

text \<open>
  The first loop of \<^verbatim>\<open>Handover\<close>. \<open>None\<close>: the loop returned \<^verbatim>\<open>"", nil, nil\<close> from
  inside (the entry with the address is not a voter); \<open>Some found\<close>: the loop ended
  with this value of \<open>found\<close>.
\<close>

fun Handover_find :: "RaftNode list \<Rightarrow> string \<Rightarrow> bool option" where
  "Handover_find [] address = Some False"
| "Handover_find (node # rest) address =
     (if Address node \<noteq> address then Handover_find rest address
      else if Role node \<noteq> RaftVoter then None
      else Some True)"

text \<open>
  The second loop of \<^verbatim>\<open>Handover\<close>, at index \<open>i\<close> with the entries from \<open>i\<close> on still to
  visit; \<open>ns\<close> is the whole slice. The result is the triple the Go function returns.
\<close>

fun Handover_loop ::
  "env \<Rightarrow> string \<Rightarrow> RaftNode list \<Rightarrow> nat \<Rightarrow> RaftNode list \<Rightarrow> state \<Rightarrow>
     (string \<times> RaftNode list option \<times> error option) \<times> state" where
  "Handover_loop env address ns i [] s = (([], None, None), s)"
| "Handover_loop env address ns i (node # rest) s =
     (if Role node = RaftVoter \<or> Address node = address then
        Handover_loop env address ns (i + 1) rest s
      else
        (case isMemberOnline env (Address node) s of
           (Inl err, s1) \<Rightarrow>
             (([], None, Some (Wrap err (''Failed to check if '' @ Address node @ '' is online''))), s1)
         | (Inr online, s1) \<Rightarrow>
             if \<not> online then Handover_loop env address ns (i + 1) rest s1
             else ((Address node, Some (ns[i := (ns ! i)\<lparr>Role := RaftVoter\<rparr>]), None), s1)))"

text \<open>
  \<^verbatim>\<open>Handover\<close>. Where the first loop ends with \<open>found\<close> false, the source returns
  \<^verbatim>\<open>errors.Wrapf(err, "No dqlite node has address %s", address)\<close> with the \<open>err\<close> of
  \<^verbatim>\<open>gateway.currentRaftNodes()\<close>, which is nil at that point.
\<close>

definition Handover ::
  "env \<Rightarrow> string \<Rightarrow> state \<Rightarrow> (string \<times> RaftNode list option \<times> error option) \<times> state" where
  "Handover env address s =
     (case gateway_currentRaftNodes env s of
        Inl e \<Rightarrow> (([], None, Some (Wrap e ''Failed to get current raft nodes'')), s)
      | Inr ns \<Rightarrow>
          (let err = None in
           case Handover_find ns address of
             None \<Rightarrow> (([], None, None), s)
           | Some found \<Rightarrow>
               if \<not> found then
                 (([], None, Wrapf err (''No dqlite node has address '' @ address)), s)
               else Handover_loop env address ns 0 ns s))"

subsection \<open>List\<close>

text \<open>An entry of the result of \<^verbatim>\<open>List\<close> (\<^verbatim>\<open>api.ClusterMember\<close>).\<close>

record ClusterMember =
  ServerName :: string
  URL :: string
  Database :: bool
  Status :: string
  Message :: string
  Roles :: "string list"
  Architecture :: string

text \<open>How a Go function ends: it returns, or it panics with a message.\<close>

datatype 'a outcome = Returns 'a | Panics string

text \<open>
  Modelled from the spec: \<^verbatim>\<open>NodeInfo.Version()\<close> of the \<^verbatim>\<open>db\<close> package, the member's
  schema version and number of API extensions.
\<close>

definition Version :: "NodeInfo \<Rightarrow> int \<times> int" where
  "Version n = (NodeInfo.Schema n, NodeInfo.APIExtensions n)"

text \<open>The first loop of \<^verbatim>\<open>List\<close>, at index \<open>i\<close>; it carries \<open>result\<close> and \<open>version\<close>.\<close>

fun List_status ::
  "env \<Rightarrow> int \<Rightarrow> nat \<Rightarrow> NodeInfo list \<Rightarrow> ClusterMember list \<Rightarrow> int \<times> int \<Rightarrow>
     error + (ClusterMember list \<times> (int \<times> int))" where
  "List_status env offlineThreshold i [] result version = Inr (result, version)"
| "List_status env offlineThreshold i (node # rest) result version =
     (let r = (result ! i)\<lparr>ServerName := NodeInfo.Name node,
                           URL := ''https://'' @ NodeInfo.Address node,
                           Database := (ClusterRoleDatabase \<in> set (NodeInfo.Roles node)),
                           Roles := NodeInfo.Roles node\<rparr>
      in case ArchitectureName env (NodeInfo.Architecture node) of
           Inl err \<Rightarrow> Inl err
         | Inr a \<Rightarrow>
             (let r = r\<lparr>Architecture := a\<rparr>;
                  r = (if IsOffline env node offlineThreshold then
                         r\<lparr>Status := ''Offline'',
                           Message := ''no heartbeat since '' @ Sub env (now env) (NodeInfo.Heartbeat node)\<rparr>
                       else r\<lparr>Status := ''Online'', Message := ''fully operational''\<rparr>)
              in case CompareVersions env version (Version node) of
                   Inl err \<Rightarrow>
                     List_status env offlineThreshold (i + 1) rest
                       (result[i := r\<lparr>Status := ''Broken'', Message := ''inconsistent version''\<rparr>])
                       version
                 | Inr n \<Rightarrow>
                     List_status env offlineThreshold (i + 1) rest (result[i := r])
                       (if n = 1 then Version node else version)))"

text \<open>The second loop of \<^verbatim>\<open>List\<close>, which marks upgraded online members as blocked.\<close>

fun List_blocked ::
  "env \<Rightarrow> nat \<Rightarrow> NodeInfo list \<Rightarrow> ClusterMember list \<Rightarrow> int \<times> int \<Rightarrow> ClusterMember list" where
  "List_blocked env i [] result version = result"
| "List_blocked env i (node # rest) result version =
     (if Status (result ! i) \<noteq> ''Online'' then List_blocked env (i + 1) rest result version
      else
        (case CompareVersions env version (Version node) of
           Inl err \<Rightarrow> List_blocked env (i + 1) rest result version
         | Inr n \<Rightarrow>
             if n = 2 then
               List_blocked env (i + 1) rest
                 (result[i := (result ! i)\<lparr>Status := ''Blocked'',
                                            Message := ''waiting for other nodes to be upgraded''\<rparr>])
                 version
             else List_blocked env (i + 1) rest result version))"

text \<open>The body of the transaction of \<^verbatim>\<open>List\<close>; it yields \<open>nodes\<close> and \<open>offlineThreshold\<close>.\<close>

definition List_tx :: "env \<Rightarrow> ClusterDB \<Rightarrow> (error + NodeInfo list \<times> int) \<times> ClusterDB" where
  "List_tx env tx =
     (case Nodes env tx of
        Inl err \<Rightarrow> (Inl err, tx)
      | Inr ns \<Rightarrow>
          (case NodeOfflineThreshold env tx of
             Inl err \<Rightarrow> (Inl err, tx)
           | Inr offlineThreshold \<Rightarrow> (Inr (ns, offlineThreshold), tx)))"

text \<open>
  \<^verbatim>\<open>List\<close>. \<^verbatim>\<open>nodes[0]\<close> is read before the loops; on an empty slice Go panics with an
  index-out-of-range runtime error.
\<close>

definition List :: "env \<Rightarrow> state \<Rightarrow> (error + ClusterMember list) outcome" where
  "List env s =
     (case Transaction (Cluster s) (List_tx env) of
        (Inl err, _) \<Rightarrow> Returns (Inl err)
      | (Inr (ns, offlineThreshold), _) \<Rightarrow>
          (let result = replicate (length ns)
                 \<lparr>ServerName = [], URL = [], Database = False, Status = [], Message = [],
                  Roles = [], Architecture = []\<rparr>
           in if ns = [] then Panics ''runtime error: index out of range [0] with length 0''
              else
                (let version = Version (ns ! 0) in
                 case List_status env offlineThreshold 0 ns result version of
                   Inl err \<Rightarrow> Returns (Inl err)
                 | Inr (result, version) \<Rightarrow> Returns (Inr (List_blocked env 0 ns result version)))))"

subsection \<open>Preconditions for Bootstrap and Join\<close>

text \<open>
  Modelled from the spec: \<^verbatim>\<open>shared.PathExists\<close> on a name of the var directory (a
  symlink counts as present).
\<close>

definition PathExists :: "state \<Rightarrow> string \<Rightarrow> bool" where
  "PathExists s basename \<longleftrightarrow> basename \<in> VarDir s"

text \<open>The loop of \<^verbatim>\<open>membershipCheckNoLeftoverClusterCert\<close> over the three names.\<close>

fun leftover_loop :: "state \<Rightarrow> string list \<Rightarrow> error option" where
  "leftover_loop s [] = None"
| "leftover_loop s (basename # rest) =
     (if PathExists s basename then
        Some (Errorf ''inconsistent state: found leftover cluster certificate'')
      else leftover_loop s rest)"

definition membershipCheckNoLeftoverClusterCert :: "state \<Rightarrow> error option" where
  "membershipCheckNoLeftoverClusterCert s =
     leftover_loop s [''cluster.crt'', ''cluster.key'', ''cluster.ca'']"

text \<open>Modelled from the spec: \<^verbatim>\<open>tx.RaftNodes()\<close>, the local cache of the roster.\<close>

definition RaftNodes :: "env \<Rightarrow> NodeDB \<Rightarrow> error + RaftNode list" where
  "RaftNodes env tx = (case fault env ''tx.RaftNodes'' of Some e \<Rightarrow> Inl e | None \<Rightarrow> Inr (raft_nodes tx))"

definition membershipCheckNodeStateForBootstrapOrJoin :: "env \<Rightarrow> NodeDB \<Rightarrow> string \<Rightarrow> error option" where
  "membershipCheckNodeStateForBootstrapOrJoin env tx address =
     (case RaftNodes env tx of
        Inl err \<Rightarrow> Some (Wrap err ''failed to fetch current raft nodes'')
      | Inr ns \<Rightarrow>
          (let hasClusterAddress = (address \<noteq> []);
               hasRaftNodes = (length ns > 0)
           in if \<not> hasClusterAddress \<and> hasRaftNodes then
                Some (Errorf ''inconsistent state: found leftover entries in raft_nodes'')
              else if \<not> hasClusterAddress then
                Some (Errorf ''no cluster.https_address config is set on this node'')
              else if hasRaftNodes then
                Some (Errorf ''the node is already part of a cluster'')
              else None))"

definition membershipCheckClusterStateForBootstrapOrJoin :: "env \<Rightarrow> ClusterDB \<Rightarrow> error option" where
  "membershipCheckClusterStateForBootstrapOrJoin env tx =
     (case Nodes env tx of
        Inl err \<Rightarrow> Some (Wrap err ''failed to fetch current cluster nodes'')
      | Inr ns \<Rightarrow>
          if length ns \<noteq> 1 then
            Some (Errorf ''inconsistent state: found leftover entries in nodes'')
          else None)"

subsection \<open>Bootstrap\<close>

text \<open>
  Modelled from the spec: \<^verbatim>\<open>node.ConfigLoad\<close> followed by \<^verbatim>\<open>config.ClusterAddress()\<close>,
  the \<^verbatim>\<open>cluster_address\<close> of the local node config.
\<close>

definition ConfigLoad :: "env \<Rightarrow> NodeDB \<Rightarrow> error + string" where
  "ConfigLoad env tx = (case fault env ''node.ConfigLoad'' of
     Some e \<Rightarrow> Inl e
   | None \<Rightarrow> Inr (cluster_https_address tx))"

text \<open>
  Modelled from the spec: \<^verbatim>\<open>tx.RaftNodeFirst(address)\<close> inserts self as first Raft node,
  with id 1 and role voter.
\<close>

definition RaftNodeFirst :: "env \<Rightarrow> string \<Rightarrow> NodeDB \<Rightarrow> error option \<times> NodeDB" where
  "RaftNodeFirst env address tx = (case fault env ''tx.RaftNodeFirst'' of
     Some e \<Rightarrow> (Some e, tx)
   | None \<Rightarrow> (None, tx\<lparr>raft_nodes := raft_nodes tx @ [\<lparr>ID = 1, Address = address, Role = RaftVoter\<rparr>]\<rparr>))"

text \<open>
  Modelled from the spec: \<^verbatim>\<open>tx.NodeUpdate(id, name, address)\<close> sets the name and the
  address of the row with the given id.
\<close>

definition NodeUpdate :: "env \<Rightarrow> 64 word \<Rightarrow> string \<Rightarrow> string \<Rightarrow> ClusterDB \<Rightarrow> error option \<times> ClusterDB" where
  "NodeUpdate env nid name address tx = (case fault env ''tx.NodeUpdate'' of
     Some e \<Rightarrow> (Some e, tx)
   | None \<Rightarrow>
       (None, tx\<lparr>nodes := map (\<lambda>n. if NodeInfo.ID n = nid
                                   then n\<lparr>NodeInfo.Name := name, NodeInfo.Address := address\<rparr>
                                   else n) (nodes tx)\<rparr>))"

text \<open>
  Modelled from the spec: \<^verbatim>\<open>tx.NodeAddRole(id, role)\<close> and \<^verbatim>\<open>tx.NodeRemoveRole(id, role)\<close>
  add and remove an application role tag of the row with the given id.
\<close>

definition NodeAddRole :: "env \<Rightarrow> 64 word \<Rightarrow> string \<Rightarrow> ClusterDB \<Rightarrow> error option \<times> ClusterDB" where
  "NodeAddRole env nid role tx = (case fault env ''tx.NodeAddRole'' of
     Some e \<Rightarrow> (Some e, tx)
   | None \<Rightarrow>
       (None, tx\<lparr>nodes := map (\<lambda>n. if NodeInfo.ID n = nid
                                   then n\<lparr>NodeInfo.Roles := NodeInfo.Roles n @ [role]\<rparr>
                                   else n) (nodes tx)\<rparr>))"

definition NodeRemoveRole :: "env \<Rightarrow> 64 word \<Rightarrow> string \<Rightarrow> ClusterDB \<Rightarrow> error option \<times> ClusterDB" where
  "NodeRemoveRole env nid role tx = (case fault env ''tx.NodeRemoveRole'' of
     Some e \<Rightarrow> (Some e, tx)
   | None \<Rightarrow>
       (None, tx\<lparr>nodes := map (\<lambda>n. if NodeInfo.ID n = nid
                                   then n\<lparr>NodeInfo.Roles := removeAll role (NodeInfo.Roles n)\<rparr>
                                   else n) (nodes tx)\<rparr>))"

text \<open>
  \<^verbatim>\<open>os.Symlink(oldname, newname)\<close> in the var directory: it fails when \<open>newname\<close> is
  already there, and otherwise creates it.
\<close>

definition Symlink :: "env \<Rightarrow> string \<Rightarrow> string \<Rightarrow> state \<Rightarrow> error option \<times> state" where
  "Symlink env oldname newname s = (case fault env (''os.Symlink '' @ newname) of
     Some e \<Rightarrow> (Some e, s)
   | None \<Rightarrow>
       if newname \<in> VarDir s then (Some (Errorf (''symlink '' @ newname @ '': file exists'')), s)
       else (None, s\<lparr>VarDir := insert newname (VarDir s)\<rparr>))"

text \<open>The body of the first transaction of \<^verbatim>\<open>Bootstrap\<close>; it yields \<open>address\<close>.\<close>

definition Bootstrap_node_tx :: "env \<Rightarrow> NodeDB \<Rightarrow> (error + string) \<times> NodeDB" where
  "Bootstrap_node_tx env tx =
     (case ConfigLoad env tx of
        Inl err \<Rightarrow> (Inl (Wrap err ''failed to fetch node configuration''), tx)
      | Inr address \<Rightarrow>
          (case membershipCheckNodeStateForBootstrapOrJoin env tx address of
             Some err \<Rightarrow> (Inl err, tx)
           | None \<Rightarrow>
               (case RaftNodeFirst env address tx of
                  (Some err, tx1) \<Rightarrow> (Inl (Wrap err ''failed to insert first raft node''), tx1)
                | (None, tx1) \<Rightarrow> (Inr address, tx1))))"

text \<open>The body of the second transaction of \<^verbatim>\<open>Bootstrap\<close>.\<close>

definition Bootstrap_cluster_tx :: "env \<Rightarrow> string \<Rightarrow> string \<Rightarrow> ClusterDB \<Rightarrow> (error + unit) \<times> ClusterDB" where
  "Bootstrap_cluster_tx env name address tx =
     (case membershipCheckClusterStateForBootstrapOrJoin env tx of
        Some err \<Rightarrow> (Inl err, tx)
      | None \<Rightarrow>
          (case NodeUpdate env 1 name address tx of
             (Some err, tx1) \<Rightarrow> (Inl (Wrap err ''failed to update cluster node''), tx1)
           | (None, tx1) \<Rightarrow>
               (case NodeAddRole env 1 ClusterRoleDatabase tx1 of
                  (Some err, tx2) \<Rightarrow> (Inl (Wrap err ''Failed to add database role for the node''), tx2)
                | (None, tx2) \<Rightarrow> (Inr (), tx2))))"

text \<open>The loop of \<^verbatim>\<open>Bootstrap\<close> that creates the cluster certificate symlinks.\<close>

fun Bootstrap_symlinks :: "env \<Rightarrow> string list \<Rightarrow> state \<Rightarrow> error option \<times> state" where
  "Bootstrap_symlinks env [] s = (None, s)"
| "Bootstrap_symlinks env (ext # rest) s =
     (if ext = ''.ca'' \<and> \<not> PathExists s ''server.ca'' then Bootstrap_symlinks env rest s
      else
        (case Symlink env (''server'' @ ext) (''cluster'' @ ext) s of
           (Some err, s1) \<Rightarrow> (Some (Wrap err ''failed to create cluster cert symlink''), s1)
         | (None, s1) \<Rightarrow> Bootstrap_symlinks env rest s1))"

text \<open>
  \<^verbatim>\<open>ExitExclusive(f)\<close> of \<^verbatim>\<open>db.Cluster\<close>: runs \<open>f\<close> as a transaction and releases the lock
  taken by \<^verbatim>\<open>EnterExclusive\<close>.
\<close>

definition ExitExclusive :: "state \<Rightarrow> (ClusterDB \<Rightarrow> (error + 'a) \<times> ClusterDB) \<Rightarrow> (error + 'a) \<times> state" where
  "ExitExclusive s f =
     (case Transaction (Cluster s) f of
        (r, db) \<Rightarrow> (r, s\<lparr>Cluster := db, Exclusive := False\<rparr>))"

text \<open>
  \<^verbatim>\<open>Bootstrap\<close>. The gateway calls (\<^verbatim>\<open>Shutdown\<close>, \<^verbatim>\<open>init\<close>, \<^verbatim>\<open>waitLeadership\<close>) act on
  the consensus engine, which is outside this state; here they succeed or fail.
\<close>

definition Bootstrap :: "env \<Rightarrow> string \<Rightarrow> state \<Rightarrow> error option \<times> state" where
  "Bootstrap env name s =
     (if name = [] then (Some (Errorf ''node name must not be empty''), s)
      else case membershipCheckNoLeftoverClusterCert s of
        Some err \<Rightarrow> (Some err, s)
      | None \<Rightarrow>
     (case Transaction (Node s) (Bootstrap_node_tx env) of
        (Inl err, _) \<Rightarrow> (Some err, s)
      | (Inr address, ndb) \<Rightarrow>
     (let s1 = s\<lparr>Node := ndb\<rparr> in
      case Transaction (Cluster s1) (Bootstrap_cluster_tx env name address) of
        (Inl err, _) \<Rightarrow> (Some err, s1)
      | (Inr _, cdb) \<Rightarrow>
     (let s2 = s1\<lparr>Cluster := cdb\<rparr> in
      case fault env ''state.Cluster.EnterExclusive'' of
        Some err \<Rightarrow> (Some (Wrap err ''failed to acquire cluster database lock''), s2)
      | None \<Rightarrow>
     (let s3 = s2\<lparr>Exclusive := True\<rparr> in
      case fault env ''gateway.Shutdown'' of
        Some err \<Rightarrow> (Some (Wrap err ''failed to shutdown gRPC SQL gateway''), s3)
      | None \<Rightarrow>
     (case fault env ''gateway.init'' of
        Some err \<Rightarrow> (Some (Wrap err ''failed to re-initialize gRPC SQL gateway''), s3)
      | None \<Rightarrow>
     (case fault env ''gateway.waitLeadership'' of
        Some err \<Rightarrow> (Some err, s3)
      | None \<Rightarrow>
     (case Bootstrap_symlinks env [''.crt'', ''.key'', ''.ca''] s3 of
        (Some err, s4) \<Rightarrow> (Some err, s4)
      | (None, s4) \<Rightarrow>
     (case ExitExclusive s4 (\<lambda>tx. (case Nodes env tx of Inl err \<Rightarrow> Inl err | Inr _ \<Rightarrow> Inr (), tx)) of
        (Inl err, s5) \<Rightarrow> (Some (Wrap err ''cluster database initialization failed''), s5)
      | (Inr _, s5) \<Rightarrow> (None, s5))))))))))"

subsection \<open>Join\<close>

text \<open>Modelled from the spec: \<^verbatim>\<open>tx.RaftNodesReplace(nodes)\<close> replaces the local roster cache.\<close>

definition RaftNodesReplace :: "env \<Rightarrow> RaftNode list \<Rightarrow> NodeDB \<Rightarrow> error option \<times> NodeDB" where
  "RaftNodesReplace env ns tx = (case fault env ''tx.RaftNodesReplace'' of
     Some e \<Rightarrow> (Some e, tx)
   | None \<Rightarrow> (None, tx\<lparr>raft_nodes := ns\<rparr>))"

text \<open>
  Modelled from the spec: \<^verbatim>\<open>tx.NodePendingByAddress(address)\<close> fetches the pending row
  with the given address.
\<close>

definition NodePendingByAddress :: "env \<Rightarrow> ClusterDB \<Rightarrow> string \<Rightarrow> error + NodeInfo" where
  "NodePendingByAddress env tx address = (case fault env ''tx.NodePendingByAddress'' of
     Some e \<Rightarrow> Inl e
   | None \<Rightarrow>
       (case find (\<lambda>n. NodeInfo.Address n = address \<and> NodeInfo.ID n \<in> pending tx) (nodes tx) of
          None \<Rightarrow> Inl (Errorf ''No such object'')
        | Some n \<Rightarrow> Inr n))"

text \<open>The body of the first transaction of \<^verbatim>\<open>Join\<close>; it yields \<open>address\<close>.\<close>

definition Join_node_tx :: "env \<Rightarrow> RaftNode list \<Rightarrow> NodeDB \<Rightarrow> (error + string) \<times> NodeDB" where
  "Join_node_tx env raftNodes tx =
     (case ConfigLoad env tx of
        Inl err \<Rightarrow> (Inl (Wrap err ''failed to fetch node configuration''), tx)
      | Inr address \<Rightarrow>
          (case membershipCheckNodeStateForBootstrapOrJoin env tx address of
             Some err \<Rightarrow> (Inl err, tx)
           | None \<Rightarrow>
               (case RaftNodesReplace env raftNodes tx of
                  (Some err, tx1) \<Rightarrow> (Inl (Wrap err ''failed to set raft nodes''), tx1)
                | (None, tx1) \<Rightarrow> (Inr address, tx1))))"

text \<open>
  The second transaction of \<^verbatim>\<open>Join\<close> reads the storage pool and network configuration
  of this node and the outstanding operations. Their contents play no part in what
  follows here; the three reads succeed or fail.
\<close>

definition Join_cluster_tx :: "env \<Rightarrow> ClusterDB \<Rightarrow> (error + unit) \<times> ClusterDB" where
  "Join_cluster_tx env tx =
     (case fault env ''tx.StoragePoolsNodeConfig'' of
        Some err \<Rightarrow> (Inl err, tx)
      | None \<Rightarrow>
          (case fault env ''tx.NetworksNodeConfig'' of
             Some err \<Rightarrow> (Inl err, tx)
           | None \<Rightarrow>
               (case fault env ''tx.Operations'' of
                  Some err \<Rightarrow> (Inl err, tx)
                | None \<Rightarrow> (Inr (), tx))))"

text \<open>
  The part of the stack frame of \<^verbatim>\<open>Join\<close> that the lookup of the self-entry uses.
  \<^verbatim>\<open>for _, node := range raftNodes\<close> declares one variable \<open>node\<close> for the whole loop
  (the Go language before version 1.22, which this code base predates) and copies each
  element into it in turn; \<^verbatim>\<open>info = &node\<close> stores the address of that variable, not of
  the slice element. \<open>node_cell\<close> is the cell of \<open>node\<close>, \<open>info_ptr\<close> the pointer \<open>info\<close> (\<open>None\<close>
  is nil).
\<close>

datatype Join_ref = Ref_node_cell

record Join_frame =
  node_cell :: RaftNode
  info_ptr :: "Join_ref option"

text \<open>Reading through the pointer: \<^verbatim>\<open>*info\<close>, \<^verbatim>\<open>info.ID\<close>, \<^verbatim>\<open>info.Role\<close>.\<close>

fun deref :: "Join_frame \<Rightarrow> Join_ref \<Rightarrow> RaftNode" where
  "deref f Ref_node_cell = node_cell f"

text \<open>The loop that looks for the self-entry.\<close>

fun Join_range :: "string \<Rightarrow> RaftNode list \<Rightarrow> Join_frame \<Rightarrow> Join_frame" where
  "Join_range address [] f = f"
| "Join_range address (element # rest) f =
     (let f1 = f\<lparr>node_cell := element\<rparr>;
          f2 = (if Address (node_cell f1) = address then f1\<lparr>info_ptr := Some Ref_node_cell\<rparr> else f1)
      in Join_range address rest f2)"

text \<open>
  \<^verbatim>\<open>notifyNodesUpdate(raftNodes, id, cert)\<close>: a heartbeat goes to every entry whose id
  differs from \<open>id\<close>. The addresses are recorded in the order of the loop.
\<close>

definition notifyNodesUpdate :: "RaftNode list \<Rightarrow> 64 word \<Rightarrow> state \<Rightarrow> state" where
  "notifyNodesUpdate raftNodes nid s =
     s\<lparr>Heartbeats := Heartbeats s @ map Address (filter (\<lambda>n. ID n \<noteq> nid) raftNodes)\<rparr>"

text \<open>
  The reconciling transaction that \<^verbatim>\<open>Join\<close> passes to \<^verbatim>\<open>ExitExclusive\<close>. The migration
  of storage pools, networks and operations (the three loops over the values read by
  the second transaction) succeeds or fails as a whole. It yields the id from which no
  heartbeat is to be sent.
\<close>

definition Join_exit_tx :: "env \<Rightarrow> string \<Rightarrow> RaftNode \<Rightarrow> ClusterDB \<Rightarrow> (error + 64 word) \<times> ClusterDB" where
  "Join_exit_tx env address self tx =
     (case NodePendingByAddress env tx address of
        Inl err \<Rightarrow> (Inl (Wrap err ''failed to get ID of joining node''), tx)
      | Inr n \<Rightarrow>
          (case fault env ''migrate pools, networks and operations'' of
             Some err \<Rightarrow> (Inl err, tx)
           | None \<Rightarrow>
               (case NodePending env (NodeInfo.ID n) False tx of
                  (Some err, tx1) \<Rightarrow> (Inl (Wrap err ''failed to unmark the node as pending''), tx1)
                | (None, tx1) \<Rightarrow>
                    if Role self = RaftVoter then
                      (case NodeAddRole env (NodeInfo.ID n) ClusterRoleDatabase tx1 of
                         (Some err, tx2) \<Rightarrow>
                           (Inl (Wrap err ''Failed to add database role for the node''), tx2)
                       | (None, tx2) \<Rightarrow> (Inr (ID self), tx2))
                    else (Inr (ID self), tx1))))"

text \<open>
  \<^verbatim>\<open>Join\<close>. The add-member RPC is recorded in \<open>RPCs\<close> when it is issued, whether or not
  the leader then reports an error.
\<close>

definition Join :: "env \<Rightarrow> string \<Rightarrow> string \<Rightarrow> RaftNode list \<Rightarrow> state \<Rightarrow> error option outcome \<times> state" where
  "Join env cert name raftNodes s =
     (if name = [] then (Returns (Some (Errorf ''node name must not be empty'')), s)
      else case Transaction (Node s) (Join_node_tx env raftNodes) of
        (Inl err, _) \<Rightarrow> (Returns (Some err), s)
      | (Inr address, ndb) \<Rightarrow>
     (let s1 = s\<lparr>Node := ndb\<rparr> in
      case Transaction (Cluster s1) (Join_cluster_tx env) of
        (Inl err, _) \<Rightarrow> (Returns (Some err), s1)
      | (Inr _, _) \<Rightarrow>
     (case fault env ''state.Cluster.EnterExclusive'' of
        Some err \<Rightarrow> (Returns (Some (Wrap err ''failed to acquire cluster database lock'')), s1)
      | None \<Rightarrow>
     (let s2 = s1\<lparr>Exclusive := True\<rparr> in
      case fault env ''gateway.Shutdown'' of
        Some err \<Rightarrow> (Returns (Some (Wrap err ''failed to shutdown gRPC SQL gateway'')), s2)
      | None \<Rightarrow>
     (case fault env ''os.RemoveAll'' of
        Some err \<Rightarrow> (Returns (Some (Wrap err ''failed to remove existing raft data'')), s2)
      | None \<Rightarrow>
     (let s3 = s2\<lparr>GlobalDatabaseDir := False, Cert := cert\<rparr> in
      case fault env ''gateway.init'' of
        Some err \<Rightarrow> (Returns (Some (Wrap err ''failed to re-initialize gRPC SQL gateway'')), s3)
      | None \<Rightarrow>
     (let f = Join_range address raftNodes
                \<lparr>node_cell = \<lparr>ID = 0, Address = [], Role = RaftVoter\<rparr>, info_ptr = None\<rparr> in
      case info_ptr f of
        None \<Rightarrow> (Panics ''joining node not found'', s3)
      | Some p \<Rightarrow>
     (case fault env ''client.FindLeader'' of
        Some err \<Rightarrow> (Returns (Some (Wrap err ''Failed to connect to cluster leader'')), s3)
      | None \<Rightarrow>
     (let s4 = s3\<lparr>RPCs := RPCs s3 @ [Add (deref f p)]\<rparr> in
      case fault env ''client.Add'' of
        Some err \<Rightarrow> (Returns (Some (Wrap err ''Failed to join cluster'')), s4)
      | None \<Rightarrow>
     (case ExitExclusive s4 (Join_exit_tx env address (deref f p)) of
        (Inl err, s5) \<Rightarrow> (Returns (Some (Wrap err ''cluster database initialization failed'')), s5)
      | (Inr nid, s5) \<Rightarrow> (Returns None, notifyNodesUpdate raftNodes nid s5)))))))))))"

subsection \<open>Rebalance\<close>

text \<open>The zero value of \<^verbatim>\<open>db.NodeInfo\<close>, which indexing a Go map yields for an absent key.\<close>

definition zero_NodeInfo :: NodeInfo where
  "zero_NodeInfo =
     \<lparr>NodeInfo.ID = 0, NodeInfo.Name = [], NodeInfo.Address = [], NodeInfo.Schema = 0,
      NodeInfo.APIExtensions = 0, NodeInfo.Heartbeat = 0, NodeInfo.Roles = [],
      NodeInfo.Architecture = 0\<rparr>"

definition lookup :: "(string \<rightharpoonup> NodeInfo) \<Rightarrow> string \<Rightarrow> NodeInfo" where
  "lookup m k = (case m k of None \<Rightarrow> zero_NodeInfo | Some n \<Rightarrow> n)"

text \<open>The loop that fills \<open>nodesByAddress\<close>: a later row replaces an earlier one.\<close>

fun nodesByAddress_loop :: "NodeInfo list \<Rightarrow> (string \<rightharpoonup> NodeInfo) \<Rightarrow> (string \<rightharpoonup> NodeInfo)" where
  "nodesByAddress_loop [] m = m"
| "nodesByAddress_loop (node # rest) m = nodesByAddress_loop rest (m(NodeInfo.Address node \<mapsto> node))"

text \<open>
  The body of the first transaction of \<^verbatim>\<open>Rebalance\<close>; it yields \<open>offlineThreshold\<close> and
  \<open>nodesByAddress\<close>. \<^verbatim>\<open>ConfigLoad\<close> followed by \<^verbatim>\<open>config.OfflineThreshold()\<close> reads the
  cluster-wide threshold.
\<close>

definition Rebalance_tx :: "env \<Rightarrow> ClusterDB \<Rightarrow> (error + int \<times> (string \<rightharpoonup> NodeInfo)) \<times> ClusterDB" where
  "Rebalance_tx env tx =
     (case fault env ''cluster.ConfigLoad'' of
        Some err \<Rightarrow> (Inl (Wrap err ''failed load cluster configuration''), tx)
      | None \<Rightarrow>
          (let offlineThreshold = offline_threshold tx in
           case Nodes env tx of
             Inl err \<Rightarrow> (Inl (Wrap err ''failed to get cluster nodes''), tx)
           | Inr ns \<Rightarrow> (Inr (offlineThreshold, nodesByAddress_loop ns Map.empty), tx)))"

text \<open>
  The probe of \<^verbatim>\<open>Rebalance\<close>: \<^verbatim>\<open>Connect\<close>, and when it succeeds \<^verbatim>\<open>client.GetServer()\<close>;
  the result is the final value of \<open>err\<close>.
\<close>

definition Rebalance_probe :: "env \<Rightarrow> string \<Rightarrow> error option" where
  "Rebalance_probe env address =
     (case Connect env address of
        Some err \<Rightarrow> Some err
      | None \<Rightarrow> GetServer env address)"

text \<open>The transaction that removes the database role of a demoted member.\<close>

definition Rebalance_demote_tx :: "env \<Rightarrow> 64 word \<Rightarrow> ClusterDB \<Rightarrow> (error + unit) \<times> ClusterDB" where
  "Rebalance_demote_tx env nid tx =
     (case NodeRemoveRole env nid ClusterRoleDatabase tx of
        (Some err, tx1) \<Rightarrow> (Inl err, tx1)
      | (None, tx1) \<Rightarrow> (Inr (), tx1))"

text \<open>
  The loop of \<^verbatim>\<open>Rebalance\<close> that groups the roster by role, at index \<open>i\<close> with the
  entries from \<open>i\<close> on still to visit. It carries \<open>currentRaftNodes\<close> (whose entry \<open>i\<close>
  a demotion overwrites), \<open>voters\<close>, \<open>standbys\<close> and \<open>candidates\<close>. A demoted entry
  joins none of the three lists (\<^verbatim>\<open>continue\<close>).
\<close>

fun Rebalance_group ::
  "env \<Rightarrow> (string \<rightharpoonup> NodeInfo) \<Rightarrow> int \<Rightarrow> nat \<Rightarrow> RaftNode list \<Rightarrow>
     RaftNode list \<times> string list \<times> string list \<times> string list \<Rightarrow> state \<Rightarrow>
     (error + RaftNode list \<times> string list \<times> string list \<times> string list) \<times> state" where
  "Rebalance_group env nodesByAddress offlineThreshold i [] acc s = (Inr acc, s)"
| "Rebalance_group env nodesByAddress offlineThreshold i (info # rest)
       (currentRaftNodes, voters, standbys, candidates) s =
     (let node = lookup nodesByAddress (Address info);
          grouped = (case Role info of
                       RaftVoter \<Rightarrow> (currentRaftNodes, voters @ [Address info], standbys, candidates)
                     | RaftStandBy \<Rightarrow> (currentRaftNodes, voters, standbys @ [Address info], candidates)
                     | RaftSpare \<Rightarrow> (currentRaftNodes, voters, standbys, candidates @ [Address info]))
      in if IsOffline env node offlineThreshold \<and> Role info \<noteq> RaftSpare then
           (case Rebalance_probe env (NodeInfo.Address node) of
              Some _ \<Rightarrow>
                (case fault env ''gateway.getClient'' of
                   Some err \<Rightarrow> (Inl (Wrap err ''Failed to connect to local dqlite node''), s)
                 | None \<Rightarrow>
                     (let s1 = s\<lparr>RPCs := RPCs s @ [Assign (ID info) RaftSpare]\<rparr> in
                      case fault env ''client.Assign'' of
                        Some err \<Rightarrow> (Inl (Wrap err ''Failed to demote offline node''), s1)
                      | None \<Rightarrow>
                          (case Transaction (Cluster s1) (Rebalance_demote_tx env (NodeInfo.ID node)) of
                             (Inl err, _) \<Rightarrow> (Inl (Wrap err ''Failed to update node role''), s1)
                           | (Inr _, db) \<Rightarrow>
                               Rebalance_group env nodesByAddress offlineThreshold (i + 1) rest
                                 (currentRaftNodes[i := (currentRaftNodes ! i)\<lparr>Role := RaftSpare\<rparr>],
                                  voters, standbys, candidates)
                                 (s1\<lparr>Cluster := db\<rparr>))))
            | None \<Rightarrow> Rebalance_group env nodesByAddress offlineThreshold (i + 1) rest grouped s)
         else Rebalance_group env nodesByAddress offlineThreshold (i + 1) rest grouped s)"

text \<open>
  The last loop of \<^verbatim>\<open>Rebalance\<close>: the first entry with the address gets the role.
\<close>

fun Rebalance_assign :: "string \<Rightarrow> RaftRole \<Rightarrow> nat \<Rightarrow> RaftNode list \<Rightarrow> RaftNode list \<Rightarrow> RaftNode list" where
  "Rebalance_assign address role i [] currentRaftNodes = currentRaftNodes"
| "Rebalance_assign address role i (node # rest) currentRaftNodes =
     (if Address node = address then currentRaftNodes[i := (currentRaftNodes ! i)\<lparr>Role := role\<rparr>]
      else Rebalance_assign address role (i + 1) rest currentRaftNodes)"

text \<open>
  The end of \<^verbatim>\<open>Rebalance\<close>, from the choice of the candidate on: the loop over
  \<open>candidates\<close> takes the registry address of the first one and breaks.
\<close>

definition Rebalance_select ::
  "(string \<rightharpoonup> NodeInfo) \<Rightarrow> RaftRole \<Rightarrow> string list \<Rightarrow> RaftNode list \<Rightarrow>
     string \<times> RaftNode list option \<times> error option" where
  "Rebalance_select nodesByAddress role candidates currentRaftNodes =
     (let address = (case candidates of
                       [] \<Rightarrow> []
                     | candidate # _ \<Rightarrow> NodeInfo.Address (lookup nodesByAddress candidate))
      in if address = [] then ([], Some currentRaftNodes, None)
         else (address,
               Some (Rebalance_assign address role 0 currentRaftNodes currentRaftNodes),
               None))"

definition Rebalance :: "env \<Rightarrow> state \<Rightarrow> (string \<times> RaftNode list option \<times> error option) \<times> state" where
  "Rebalance env s =
     (case gateway_currentRaftNodes env s of
        Inl err \<Rightarrow> (([], None, Some (Wrap err ''failed to get current raft nodes'')), s)
      | Inr currentRaftNodes \<Rightarrow>
     (case Transaction (Cluster s) (Rebalance_tx env) of
        (Inl err, _) \<Rightarrow> (([], None, Some err), s)
      | (Inr (offlineThreshold, nodesByAddress), _) \<Rightarrow>
     (case Rebalance_group env nodesByAddress offlineThreshold 0 currentRaftNodes
             (currentRaftNodes, [], [], []) s of
        (Inl err, s1) \<Rightarrow> (([], None, Some err), s1)
      | (Inr (currentRaftNodes, voters, standbys, candidates), s1) \<Rightarrow>
          if length voters < MaxVoters \<and> length voters > 1 then
            (Rebalance_select nodesByAddress RaftVoter (standbys @ candidates) currentRaftNodes, s1)
          else if length standbys < MaxStandBys then
            (Rebalance_select nodesByAddress RaftStandBy candidates currentRaftNodes, s1)
          else (([], None, None), s1))))"

subsection \<open>Auxiliary notions and sample data\<close>


text \<open>
  A roster entry that the grouping loop of \<^verbatim>\<open>Rebalance\<close> demotes, given
  \<open>nodesByAddress\<close> and \<open>offlineThreshold\<close>: its registry row (the zero row when there
  is none) has a heartbeat older than the threshold, it is not a spare, and the probe of
  the row's address fails.
\<close>

definition demotes :: "env \<Rightarrow> (string \<rightharpoonup> NodeInfo) \<Rightarrow> int \<Rightarrow> RaftNode \<Rightarrow> bool" where
  "demotes env nodesByAddress offlineThreshold info \<longleftrightarrow>
     IsOffline env (lookup nodesByAddress (Address info)) offlineThreshold \<and>
     Role info \<noteq> RaftSpare \<and>
     Rebalance_probe env (NodeInfo.Address (lookup nodesByAddress (Address info))) \<noteq> None"

text \<open>The same, with the map and the threshold that \<^verbatim>\<open>Rebalance\<close> reads in state \<open>s\<close>.\<close>

definition demoted :: "env \<Rightarrow> state \<Rightarrow> RaftNode \<Rightarrow> bool" where
  "demoted env s info \<longleftrightarrow>
     demotes env (nodesByAddress_loop (nodes (Cluster s)) Map.empty) (offline_threshold (Cluster s)) info"

text \<open>The roster with the demoted entries turned into spares.\<close>

definition after_demotion :: "env \<Rightarrow> state \<Rightarrow> RaftNode list \<Rightarrow> RaftNode list" where
  "after_demotion env s roster = map (\<lambda>n. if demoted env s n then n\<lparr>Role := RaftSpare\<rparr> else n) roster"

text \<open>The entries of a role that are not demoted, in roster order.\<close>

definition surviving :: "env \<Rightarrow> state \<Rightarrow> RaftRole \<Rightarrow> RaftNode list \<Rightarrow> RaftNode list" where
  "surviving env s role roster = filter (\<lambda>n. Role n = role \<and> \<not> demoted env s n) roster"

text \<open>
  An environment at time 1000 in which no collaborator call fails, the addresses in
  \<open>reachable\<close> answer probes, the registry insert appends a row numbered after the
  number of rows, architecture 2 is known, and versions compare as pairs.
\<close>

definition example_env :: "string set \<Rightarrow> env" where
  "example_env reachable =
     \<lparr>fault = (\<lambda>_. None),
      now = 1000,
      NodeAddWithArch = (\<lambda>name address arch tx.
         (Inr (of_nat (length (nodes tx)) + 1),
          tx\<lparr>nodes := nodes tx @
            [\<lparr>NodeInfo.ID = of_nat (length (nodes tx)) + 1, NodeInfo.Name = name,
              NodeInfo.Address = address, NodeInfo.Schema = 1, NodeInfo.APIExtensions = 1,
              NodeInfo.Heartbeat = 1000, NodeInfo.Roles = [], NodeInfo.Architecture = arch\<rparr>]\<rparr>)),
      Connect = (\<lambda>a. if a \<in> reachable then None else Some (Errorf ''connection refused'')),
      GetServer = (\<lambda>_. None),
      hasConnectivity = (\<lambda>a. a \<in> reachable),
      ArchitectureName = (\<lambda>a. if a = 2 then Inr ''x86_64'' else Inl (Errorf ''unknown architecture'')),
      CompareVersions = (\<lambda>(s1, e1) (s2, e2).
         if s1 = s2 \<and> e1 = e2 then Inr 0
         else if s1 \<ge> s2 \<and> e1 \<ge> e2 then Inr 1
         else if s1 \<le> s2 \<and> e1 \<le> e2 then Inr 2
         else Inl (Errorf ''nodes have inconsistent versions'')),
      Sub = (\<lambda>_ _. ''some time'')\<rparr>"

text \<open>A registry row with schema 1, API count 1 and architecture 2.\<close>

definition member :: "64 word \<Rightarrow> string \<Rightarrow> string \<Rightarrow> int \<Rightarrow> string list \<Rightarrow> NodeInfo" where
  "member nid name address heartbeat roles =
     \<lparr>NodeInfo.ID = nid, NodeInfo.Name = name, NodeInfo.Address = address, NodeInfo.Schema = 1,
      NodeInfo.APIExtensions = 1, NodeInfo.Heartbeat = heartbeat, NodeInfo.Roles = roles,
      NodeInfo.Architecture = 2\<rparr>"

text \<open>
  A state of the node with cluster address \<open>a\<close>, with the given consensus
  configuration and registry rows, an offline threshold of 20, the server certificate in
  place and nothing else.
\<close>

definition example_state :: "RaftNode list \<Rightarrow> NodeInfo list \<Rightarrow> state" where
  "example_state roster rows =
     \<lparr>VarDir = {''server.crt'', ''server.key''},
      Node = \<lparr>cluster_https_address = ''a'', raft_nodes = []\<rparr>,
      Cluster = \<lparr>nodes = rows, pending = {}, offline_threshold = 20\<rparr>,
      Raft = roster, RPCs = [], Probes = [], Heartbeats = [],
      Exclusive = False, GlobalDatabaseDir = False, Cert = []\<rparr>"

section \<open>Properties\<close>

subsection \<open>Helper lemmas\<close>

lemma check_accept_loop_None:
  "check_accept_loop ns name address schema api = None \<longleftrightarrow>
     (\<forall>n\<in>set ns. NodeInfo.Name n \<noteq> name \<and> NodeInfo.Address n \<noteq> address \<and>
        NodeInfo.Schema n = schema \<and> NodeInfo.APIExtensions n = api)"
  by (induction ns) auto

lemma count_roles_filter:
  "count_roles ns (v, s) =
     (v + length (filter (\<lambda>n. Role n = RaftVoter) ns),
      s + length (filter (\<lambda>n. Role n = RaftStandBy) ns))"
  by (induction ns arbitrary: v s) (auto split: RaftRole.splits)



lemma Handover_find_absent:
  "address \<notin> Address ` set ns \<Longrightarrow> Handover_find ns address = Some False"
  by (induction ns) auto



subsection \<open>Accept\<close>

text \<open>
  C8. Given the rows \<open>ns\<close> that \<^verbatim>\<open>tx.Nodes()\<close> returns,
  \<^verbatim>\<open>membershipCheckClusterStateForAccept\<close> fails exactly when the registry is a single
  row with address 0.0.0.0, or some row has the given name, or the given address, or a
  schema other than the given one, or an API count other than the given one; and when it
  fails, \<^verbatim>\<open>Accept\<close> fails and leaves the state as it was, so nothing is inserted.
\<close>

theorem checkClusterForAccept_fails_iff:
  assumes "Nodes env (Cluster s) = Inr ns"
  shows "(membershipCheckClusterStateForAccept env (Cluster s) name address schema api \<noteq> None \<longleftrightarrow>
            (length ns = 1 \<and> NodeInfo.Address (ns ! 0) = ''0.0.0.0'') \<or>
            (\<exists>n\<in>set ns. NodeInfo.Name n = name \<or> NodeInfo.Address n = address \<or>
               NodeInfo.Schema n \<noteq> schema \<or> NodeInfo.APIExtensions n \<noteq> api)) \<and>
         (membershipCheckClusterStateForAccept env (Cluster s) name address schema api \<noteq> None \<longrightarrow>
            (\<exists>e. Accept env name address schema api arch s = (Inl e, s)))"
proof (rule conjI)
  have "membershipCheckClusterStateForAccept env (Cluster s) name address schema api = None \<longleftrightarrow>
      \<not> (length ns = 1 \<and> NodeInfo.Address (ns ! 0) = ''0.0.0.0'') \<and>
      (\<forall>n\<in>set ns. NodeInfo.Name n \<noteq> name \<and> NodeInfo.Address n \<noteq> address \<and>
        NodeInfo.Schema n = schema \<and> NodeInfo.APIExtensions n = api)"
    using assms by (simp add: membershipCheckClusterStateForAccept_def check_accept_loop_None)
  then show "membershipCheckClusterStateForAccept env (Cluster s) name address schema api \<noteq> None \<longleftrightarrow>
            (length ns = 1 \<and> NodeInfo.Address (ns ! 0) = ''0.0.0.0'') \<or>
            (\<exists>n\<in>set ns. NodeInfo.Name n = name \<or> NodeInfo.Address n = address \<or>
               NodeInfo.Schema n \<noteq> schema \<or> NodeInfo.APIExtensions n \<noteq> api)"
    by auto
next
  show "membershipCheckClusterStateForAccept env (Cluster s) name address schema api \<noteq> None \<longrightarrow>
            (\<exists>e. Accept env name address schema api arch s = (Inl e, s))"
    by (auto simp: Accept_def Accept_tx_def Transaction_def)
qed

theorem checkClusterForAccept_fails_iff_witness:
  "Nodes (example_env {}) (Cluster (example_state [] [member 1 ''n1'' ''a'' 990 []])) =
     Inr [member 1 ''n1'' ''a'' 990 []] \<and>
   membershipCheckClusterStateForAccept (example_env {})
     (Cluster (example_state [] [member 1 ''n1'' ''a'' 990 []])) ''n1'' ''b'' 1 1 \<noteq> None \<and>
   Accept (example_env {}) ''n1'' ''b'' 1 1 2 (example_state [] [member 1 ''n1'' ''a'' 990 []]) =
     (Inl (Errorf ''The cluster already has a member with name: n1''),
      example_state [] [member 1 ''n1'' ''a'' 990 []])"
proof -
  have h: "Nodes (example_env {}) (Cluster (example_state [] [member 1 ''n1'' ''a'' 990 []])) =
     Inr [member 1 ''n1'' ''a'' 990 []]"
    by (simp add: Nodes_def example_env_def example_state_def)
  show ?thesis
    using h checkClusterForAccept_fails_iff[OF h, of "''n1''" "''b''" 1 1 2]
    by (simp add: Accept_def Accept_tx_def Transaction_def
        membershipCheckClusterStateForAccept_def Nodes_def example_env_def example_state_def
        member_def)
qed

text \<open>
  C4. When \<^verbatim>\<open>Accept\<close> returns a roster, it is the current roster (\<open>n\<close> entries, \<open>v\<close>
  voters, \<open>s\<close> stand-bys) followed by one new entry, which carries the id the registry
  insert assigned and the given address, and whose role is voter if \<open>n > 1\<close> and
  \<open>v < 3\<close>, else stand-by if \<open>s < 2\<close>, else spare; 3 and 2 are \<^verbatim>\<open>MaxVoters\<close> and
  \<^verbatim>\<open>MaxStandBys\<close>.
\<close>

theorem Accept_role_by_capacity:
  assumes "Accept env name address schema api arch s = (Inr ns, s')"
  shows "MaxVoters = 3 \<and> MaxStandBys = 2 \<and>
         (\<exists>nid. fst (NodeAddWithArch env name address arch (Cluster s)) = Inr nid \<and>
           ns = Raft s @ [\<lparr>ID = nid, Address = address, Role =
             (if length (Raft s) > 1 \<and> length (filter (\<lambda>n. Role n = RaftVoter) (Raft s)) < MaxVoters
              then RaftVoter
              else if length (filter (\<lambda>n. Role n = RaftStandBy) (Raft s)) < MaxStandBys
              then RaftStandBy
              else RaftSpare)\<rparr>])"
  using assms
  by (auto simp: Accept_def Accept_tx_def Transaction_def gateway_currentRaftNodes_def count_roles_filter
      MaxVoters_def MaxStandBys_def Let_def
      split: if_splits option.splits sum.splits prod.splits)

theorem Accept_role_by_capacity_witness:
  "Accept (example_env {}) ''n3'' ''c'' 1 1 2
       (example_state
          [\<lparr>ID = 1, Address = ''a'', Role = RaftVoter\<rparr>, \<lparr>ID = 2, Address = ''b'', Role = RaftVoter\<rparr>]
          [member 1 ''n1'' ''a'' 990 [], member 2 ''n2'' ''b'' 990 []]) =
     (Inr [\<lparr>ID = 1, Address = ''a'', Role = RaftVoter\<rparr>, \<lparr>ID = 2, Address = ''b'', Role = RaftVoter\<rparr>,
           \<lparr>ID = 3, Address = ''c'', Role = RaftVoter\<rparr>],
      (example_state
          [\<lparr>ID = 1, Address = ''a'', Role = RaftVoter\<rparr>, \<lparr>ID = 2, Address = ''b'', Role = RaftVoter\<rparr>]
          [member 1 ''n1'' ''a'' 990 [], member 2 ''n2'' ''b'' 990 []])
        \<lparr>Cluster := \<lparr>nodes = [member 1 ''n1'' ''a'' 990 [], member 2 ''n2'' ''b'' 990 [],
                                member 3 ''n3'' ''c'' 1000 []],
                      pending = {3}, offline_threshold = 20\<rparr>\<rparr>)"
proof -
  have h: "Accept (example_env {}) ''n3'' ''c'' 1 1 2
       (example_state
          [\<lparr>ID = 1, Address = ''a'', Role = RaftVoter\<rparr>, \<lparr>ID = 2, Address = ''b'', Role = RaftVoter\<rparr>]
          [member 1 ''n1'' ''a'' 990 [], member 2 ''n2'' ''b'' 990 []]) =
     (Inr [\<lparr>ID = 1, Address = ''a'', Role = RaftVoter\<rparr>, \<lparr>ID = 2, Address = ''b'', Role = RaftVoter\<rparr>,
           \<lparr>ID = 3, Address = ''c'', Role = RaftVoter\<rparr>],
      (example_state
          [\<lparr>ID = 1, Address = ''a'', Role = RaftVoter\<rparr>, \<lparr>ID = 2, Address = ''b'', Role = RaftVoter\<rparr>]
          [member 1 ''n1'' ''a'' 990 [], member 2 ''n2'' ''b'' 990 []])
        \<lparr>Cluster := \<lparr>nodes = [member 1 ''n1'' ''a'' 990 [], member 2 ''n2'' ''b'' 990 [],
                                member 3 ''n3'' ''c'' 1000 []],
                      pending = {3}, offline_threshold = 20\<rparr>\<rparr>)"
    by (simp add: Accept_def Accept_tx_def Transaction_def
        membershipCheckClusterStateForAccept_def Nodes_def example_env_def example_state_def
        member_def NodePending_def gateway_currentRaftNodes_def MaxVoters_def Let_def)
  show ?thesis
    using h Accept_role_by_capacity[OF h] by simp
qed

subsection \<open>Liveness\<close>

text \<open>
  C9. For a member with a registry row (and a readable threshold), \<^verbatim>\<open>isMemberOnline\<close>
  answers online exactly when the last heartbeat is no older than the offline threshold
  or the connectivity probe of its address succeeds; the probe is run only when the
  heartbeat is stale: with a recent heartbeat the state, and so the list of probes, is
  unchanged.
\<close>

theorem isMemberOnline_classification:
  assumes "NodeOfflineThreshold env (Cluster s) = Inr threshold"
    and "NodeByAddress env (Cluster s) address = Inr n"
  shows "isMemberOnline env address s =
     (Inr (now env - NodeInfo.Heartbeat n \<le> threshold \<or> hasConnectivity env address),
      if now env - NodeInfo.Heartbeat n \<le> threshold then s
      else s\<lparr>Probes := Probes s @ [address]\<rparr>)"
  using assms
  by (auto simp: isMemberOnline_def isMemberOnline_tx_def Transaction_def Let_def IsOffline_def)

theorem isMemberOnline_classification_witness:
  "NodeOfflineThreshold (example_env {''b''}) (Cluster (example_state [] [member 2 ''n2'' ''b'' 900 []])) = Inr 20 \<and>
   NodeByAddress (example_env {''b''}) (Cluster (example_state [] [member 2 ''n2'' ''b'' 900 []])) ''b'' =
     Inr (member 2 ''n2'' ''b'' 900 []) \<and>
   isMemberOnline (example_env {''b''}) ''b'' (example_state [] [member 2 ''n2'' ''b'' 900 []]) =
     (Inr True, (example_state [] [member 2 ''n2'' ''b'' 900 []])\<lparr>Probes := [''b'']\<rparr>)"
proof -
  have t: "NodeOfflineThreshold (example_env {''b''})
      (Cluster (example_state [] [member 2 ''n2'' ''b'' 900 []])) = Inr 20"
    by (simp add: NodeOfflineThreshold_def example_env_def example_state_def)
  have n: "NodeByAddress (example_env {''b''})
      (Cluster (example_state [] [member 2 ''n2'' ''b'' 900 []])) ''b'' = Inr (member 2 ''n2'' ''b'' 900 [])"
    by (simp add: NodeByAddress_def example_env_def example_state_def member_def)
  show ?thesis
    using t n isMemberOnline_classification[OF t n]
    by (simp add: example_env_def example_state_def member_def)
qed

subsection \<open>Handover\<close>

text \<open>
  When no entry of the current roster has the leaving address, \<^verbatim>\<open>Handover\<close> returns the
  empty address, no roster and a nil error: \<^verbatim>\<open>errors.Wrapf\<close> of a nil error is nil.
\<close>

lemma Handover_unknown_address:
  assumes "gateway_currentRaftNodes env s = Inr ns"
    and "address \<notin> Address ` set ns"
  shows "Handover env address s = (([], None, None), s)"
  using assms by (simp add: Handover_def Handover_find_absent Wrapf_def)

text \<open>
  C3. \<^verbatim>\<open>Handover\<close> of the address \<open>b\<close> on the roster \<open>[{1, a, voter}]\<close>, which has no
  entry with that address, returns the empty address, no roster and no error, and
  leaves the state as it was. The claim expects an error here.
\<close>

theorem Handover_unknown_address_returns_nil_error:
  "Handover (example_env {}) ''b''
     (example_state [\<lparr>ID = 1, Address = ''a'', Role = RaftVoter\<rparr>] [member 1 ''n1'' ''a'' 990 []]) =
     (([], None, None),
      example_state [\<lparr>ID = 1, Address = ''a'', Role = RaftVoter\<rparr>] [member 1 ''n1'' ''a'' 990 []])"
proof -
  have r: "gateway_currentRaftNodes (example_env {})
     (example_state [\<lparr>ID = 1, Address = ''a'', Role = RaftVoter\<rparr>] [member 1 ''n1'' ''a'' 990 []]) =
     Inr [\<lparr>ID = 1, Address = ''a'', Role = RaftVoter\<rparr>]"
    by (simp add: gateway_currentRaftNodes_def example_env_def example_state_def)
  have a: "''b'' \<notin> Address ` set [\<lparr>ID = 1, Address = ''a'', Role = RaftVoter\<rparr>]"
    by simp
  from r a show ?thesis
    by (rule Handover_unknown_address)
qed




subsection \<open>List\<close>

text \<open>
  C10. Once the read transaction of \<^verbatim>\<open>List\<close> has succeeded with the rows \<open>ns\<close>: on an
  empty registry \<^verbatim>\<open>List\<close> does not return (neither a result nor an error) but panics
  with the index-out-of-range runtime error of \<^verbatim>\<open>nodes[0]\<close>; so whenever it returns, the
  registry has at least one row.
\<close>

theorem List_empty_registry_panics:
  assumes "Nodes env (Cluster s) = Inr ns"
    and "NodeOfflineThreshold env (Cluster s) = Inr offlineThreshold"
  shows "(ns = [] \<longrightarrow> List env s = Panics ''runtime error: index out of range [0] with length 0'') \<and>
         (\<forall>r. List env s = Returns r \<longrightarrow> ns \<noteq> [])"
  using assms by (auto simp: List_def List_tx_def Transaction_def)

theorem List_empty_registry_panics_witness:
  "Nodes (example_env {}) (Cluster (example_state [] [])) = Inr [] \<and>
   NodeOfflineThreshold (example_env {}) (Cluster (example_state [] [])) = Inr 20 \<and>
   List (example_env {}) (example_state [] []) =
     Panics ''runtime error: index out of range [0] with length 0''"
proof -
  have n: "Nodes (example_env {}) (Cluster (example_state [] [])) = Inr []"
    by (simp add: Nodes_def example_env_def example_state_def)
  have t: "NodeOfflineThreshold (example_env {}) (Cluster (example_state [] [])) = Inr 20"
    by (simp add: NodeOfflineThreshold_def example_env_def example_state_def)
  show ?thesis
    using n t List_empty_registry_panics[OF n t] by simp
qed

subsection \<open>Bootstrap\<close>

lemma Bootstrap_symlinks_keeps:
  "Bootstrap_symlinks env exts s = (r, s') \<Longrightarrow> x \<in> VarDir s \<Longrightarrow> x \<in> VarDir s'"
  by (induction exts arbitrary: s)
     (auto simp: Symlink_def split: if_splits option.splits prod.splits)

lemma Bootstrap_symlinks_crt:
  assumes "Bootstrap_symlinks env (''.crt'' # exts) s = (None, s')"
  shows "''cluster.crt'' \<in> VarDir s'"
proof -
  obtain s1 where s1: "Symlink env ''server.crt'' ''cluster.crt'' s = (None, s1)"
    and rest: "Bootstrap_symlinks env exts s1 = (None, s')"
    using assms by (auto split: option.splits prod.splits)
  have "''cluster.crt'' \<in> VarDir s1"
    using s1 by (auto simp: Symlink_def split: if_splits option.splits)
  with rest show ?thesis
    by (rule Bootstrap_symlinks_keeps)
qed

lemma Bootstrap_creates_cluster_crt:
  assumes "Bootstrap env name s = (None, s')"
  shows "''cluster.crt'' \<in> VarDir s'"
  using assms
  by (auto simp: Bootstrap_def ExitExclusive_def Transaction_def Let_def
      simp del: Bootstrap_symlinks.simps
      split: if_splits option.splits sum.splits prod.splits
      dest!: Bootstrap_symlinks_crt)

text \<open>
  C7. In every state reached by a successful \<^verbatim>\<open>Bootstrap\<close>, a second \<^verbatim>\<open>Bootstrap\<close>,
  whatever its name argument and whichever collaborator calls would fail, returns an
  error and leaves the whole state (local database, registry, var directory) as it was;
  for a non-empty name the error is the leftover cluster certificate one, raised before
  any mutation.
\<close>

theorem Bootstrap_twice_fails_unchanged:
  assumes "Bootstrap env name s = (None, s')"
  shows "Bootstrap env' name' s' =
     (Some (if name' = [] then Errorf ''node name must not be empty''
            else Errorf ''inconsistent state: found leftover cluster certificate''), s')"
proof -
  have "''cluster.crt'' \<in> VarDir s'"
    using assms by (rule Bootstrap_creates_cluster_crt)
  then have "membershipCheckNoLeftoverClusterCert s' =
      Some (Errorf ''inconsistent state: found leftover cluster certificate'')"
    by (simp add: membershipCheckNoLeftoverClusterCert_def PathExists_def)
  then show ?thesis
    by (simp add: Bootstrap_def)
qed

theorem Bootstrap_twice_fails_unchanged_witness:
  "Bootstrap (example_env {}) ''n1'' (example_state [] [member 1 ''none'' ''0.0.0.0'' 990 []]) =
     (None,
      (example_state [] [member 1 ''none'' ''0.0.0.0'' 990 []])
        \<lparr>VarDir := {''cluster.key'', ''cluster.crt'', ''server.crt'', ''server.key''},
         Node := \<lparr>cluster_https_address = ''a'',
                  raft_nodes = [\<lparr>ID = 1, Address = ''a'', Role = RaftVoter\<rparr>]\<rparr>,
         Cluster := \<lparr>nodes = [member 1 ''n1'' ''a'' 990 [''database'']], pending = {},
                     offline_threshold = 20\<rparr>\<rparr>) \<and>
   Bootstrap (example_env {}) ''n1''
     ((example_state [] [member 1 ''none'' ''0.0.0.0'' 990 []])
        \<lparr>VarDir := {''cluster.key'', ''cluster.crt'', ''server.crt'', ''server.key''},
         Node := \<lparr>cluster_https_address = ''a'',
                  raft_nodes = [\<lparr>ID = 1, Address = ''a'', Role = RaftVoter\<rparr>]\<rparr>,
         Cluster := \<lparr>nodes = [member 1 ''n1'' ''a'' 990 [''database'']], pending = {},
                     offline_threshold = 20\<rparr>\<rparr>) =
     (Some (Errorf ''inconsistent state: found leftover cluster certificate''),
      (example_state [] [member 1 ''none'' ''0.0.0.0'' 990 []])
        \<lparr>VarDir := {''cluster.key'', ''cluster.crt'', ''server.crt'', ''server.key''},
         Node := \<lparr>cluster_https_address = ''a'',
                  raft_nodes = [\<lparr>ID = 1, Address = ''a'', Role = RaftVoter\<rparr>]\<rparr>,
         Cluster := \<lparr>nodes = [member 1 ''n1'' ''a'' 990 [''database'']], pending = {},
                     offline_threshold = 20\<rparr>\<rparr>)"
proof -
  have h: "Bootstrap (example_env {}) ''n1'' (example_state [] [member 1 ''none'' ''0.0.0.0'' 990 []]) =
     (None,
      (example_state [] [member 1 ''none'' ''0.0.0.0'' 990 []])
        \<lparr>VarDir := {''cluster.key'', ''cluster.crt'', ''server.crt'', ''server.key''},
         Node := \<lparr>cluster_https_address = ''a'',
                  raft_nodes = [\<lparr>ID = 1, Address = ''a'', Role = RaftVoter\<rparr>]\<rparr>,
         Cluster := \<lparr>nodes = [member 1 ''n1'' ''a'' 990 [''database'']], pending = {},
                     offline_threshold = 20\<rparr>\<rparr>)"
    by (simp add: Bootstrap_def membershipCheckNoLeftoverClusterCert_def PathExists_def
        Transaction_def Bootstrap_node_tx_def ConfigLoad_def
        membershipCheckNodeStateForBootstrapOrJoin_def RaftNodes_def RaftNodeFirst_def
        Bootstrap_cluster_tx_def membershipCheckClusterStateForBootstrapOrJoin_def Nodes_def
        NodeUpdate_def NodeAddRole_def ClusterRoleDatabase_def Symlink_def ExitExclusive_def
        example_env_def example_state_def member_def)
  show ?thesis
    using h Bootstrap_twice_fails_unchanged[OF h, of "example_env {}" "''n1''"] by simp
qed

subsection \<open>Join\<close>

lemma Join_range_info_kept:
  "info_ptr f = Some Ref_node_cell \<Longrightarrow> info_ptr (Join_range address ns f) = Some Ref_node_cell"
  by (induction ns arbitrary: f) (auto simp: Let_def)

lemma Join_range_info_set:
  "\<exists>n\<in>set ns. Address n = address \<Longrightarrow> info_ptr (Join_range address ns f) = Some Ref_node_cell"
  by (induction ns arbitrary: f) (auto simp: Let_def Join_range_info_kept)

text \<open>
  After the lookup loop the cell of the loop variable holds the last element of the
  slice, whichever element matched: the pointer the loop stored leads there.
\<close>

lemma Join_range_node_cell:
  "ns \<noteq> [] \<Longrightarrow> node_cell (Join_range address ns f) = last ns"
proof (induction ns arbitrary: f)
  case Nil
  then show ?case by simp
next
  case (Cons n ns)
  then show ?case
    by (cases ns) (simp_all add: Let_def)
qed

lemma Join_range_info_nonempty:
  "info_ptr f = None \<Longrightarrow> info_ptr (Join_range address ns f) = Some p \<Longrightarrow> ns \<noteq> []"
  by (cases ns) auto

lemma RPCs_notifyNodesUpdate:
  "RPCs (notifyNodesUpdate ns nid s) = RPCs s"
  by (simp add: notifyNodesUpdate_def)

lemma RPCs_ExitExclusive:
  "ExitExclusive s f = (r, s') \<Longrightarrow> RPCs s' = RPCs s"
  by (auto simp: ExitExclusive_def split: prod.splits)

text \<open>
  Whenever \<^verbatim>\<open>Join\<close> issues an RPC, it is the add-member RPC with the last entry of
  \<open>raftNodes\<close>.
\<close>

lemma Join_issues_add_of_last_entry:
  assumes "Join env cert name raftNodes s = (r, s')"
    and "RPCs s' \<noteq> RPCs s"
  shows "raftNodes \<noteq> [] \<and> RPCs s' = RPCs s @ [Add (last raftNodes)]"
proof -
  let ?f = "\<lambda>address. Join_range address raftNodes
                \<lparr>node_cell = \<lparr>ID = 0, Address = [], Role = RaftVoter\<rparr>, info_ptr = None\<rparr>"
  have payload: "raftNodes \<noteq> [] \<and> deref (?f address) p = last raftNodes"
    if "info_ptr (?f address) = Some p" for address p
  proof -
    have "raftNodes \<noteq> []"
      using that by (rule Join_range_info_nonempty[rotated]) simp
    then show ?thesis
      by (cases p) (simp add: Join_range_node_cell)
  qed
  show ?thesis
    using assms payload
    by (auto simp: Join_def Transaction_def Let_def RPCs_notifyNodesUpdate
        dest!: RPCs_ExitExclusive
        split: if_splits option.splits sum.splits prod.splits)
qed

text \<open>
  C1. A call of \<^verbatim>\<open>Join\<close> on the node with cluster address \<open>a\<close>, with the roster
  \<open>[{2, a, stand-by}, {1, b, voter}]\<close>, in which the self-entry comes first: the
  add-member RPC carries the last entry \<open>{1, b, voter}\<close>, not the self-entry. The claim
  expects the self-entry's triple whatever its position.
\<close>

theorem Join_add_carries_last_entry:
  "RPCs (snd (Join (example_env {}) ''cert'' ''n2''
       [\<lparr>ID = 2, Address = ''a'', Role = RaftStandBy\<rparr>, \<lparr>ID = 1, Address = ''b'', Role = RaftVoter\<rparr>]
       ((example_state [\<lparr>ID = 1, Address = ''b'', Role = RaftVoter\<rparr>]
           [member 1 ''n1'' ''b'' 990 [''database''], member 2 ''n2'' ''a'' 990 []])
          \<lparr>Cluster := \<lparr>nodes = [member 1 ''n1'' ''b'' 990 [''database''], member 2 ''n2'' ''a'' 990 []],
                        pending = {2}, offline_threshold = 20\<rparr>\<rparr>))) =
     [Add \<lparr>ID = 1, Address = ''b'', Role = RaftVoter\<rparr>]"
  by (simp add: Join_def Transaction_def Join_node_tx_def ConfigLoad_def
      membershipCheckNodeStateForBootstrapOrJoin_def RaftNodes_def RaftNodesReplace_def
      Join_cluster_tx_def ExitExclusive_def Join_exit_tx_def NodePendingByAddress_def
      NodePending_def NodeAddRole_def notifyNodesUpdate_def ClusterRoleDatabase_def
      example_env_def example_state_def member_def Let_def)

subsection \<open>Rebalance\<close>

text \<open>
  What the grouping loop computes when it ends without an error: the entries still to
  visit are split by role, the demoted ones left out and turned into spares.
\<close>

lemma Rebalance_group_result:
  assumes "Rebalance_group env m thr i rest (cur, vs, sbs, cs) s = (Inr (cur', vs', sbs', cs'), s')"
    and "cur = pre @ rest" and "length pre = i"
  shows "cur' = pre @ map (\<lambda>n. if demotes env m thr n then n\<lparr>Role := RaftSpare\<rparr> else n) rest \<and>
         vs' = vs @ map Address (filter (\<lambda>n. Role n = RaftVoter \<and> \<not> demotes env m thr n) rest) \<and>
         sbs' = sbs @ map Address (filter (\<lambda>n. Role n = RaftStandBy \<and> \<not> demotes env m thr n) rest) \<and>
         cs' = cs @ map Address (filter (\<lambda>n. Role n = RaftSpare) rest)"
  using assms
proof (induction rest arbitrary: pre i cur vs sbs cs s)
  case Nil
  then show ?case by simp
next
  case (Cons info rest)
  have at_i: "cur ! i = info" "i < length cur"
    using Cons.prems(2,3) by auto
  show ?case
  proof (cases "demotes env m thr info")
    case True
    then obtain s1 where step: "Rebalance_group env m thr (Suc i) rest
        (cur[i := info\<lparr>Role := RaftSpare\<rparr>], vs, sbs, cs) s1 = (Inr (cur', vs', sbs', cs'), s')"
      using Cons.prems(1) at_i
      by (auto simp: demotes_def Let_def split: option.splits sum.splits prod.splits if_splits)
    have upd: "cur[i := info\<lparr>Role := RaftSpare\<rparr>] = (pre @ [info\<lparr>Role := RaftSpare\<rparr>]) @ rest"
      using Cons.prems(2,3) by (auto simp: list_update_append)
    have len: "length (pre @ [info\<lparr>Role := RaftSpare\<rparr>]) = Suc i"
      using Cons.prems(3) by simp
    from Cons.IH[OF step upd len] True show ?thesis
      by (auto simp: demotes_def)
  next
    case False
    have cur: "cur = (pre @ [info]) @ rest" and len: "length (pre @ [info]) = Suc i"
      using Cons.prems(2,3) by simp_all
    show ?thesis
    proof (cases "Role info")
      case RaftVoter
      with False Cons.prems(1) have step: "Rebalance_group env m thr (Suc i) rest
          (cur, vs @ [Address info], sbs, cs) s = (Inr (cur', vs', sbs', cs'), s')"
        by (auto simp: demotes_def Let_def split: option.splits if_splits)
      from Cons.IH[OF step cur len] False RaftVoter show ?thesis by simp
    next
      case RaftStandBy
      with False Cons.prems(1) have step: "Rebalance_group env m thr (Suc i) rest
          (cur, vs, sbs @ [Address info], cs) s = (Inr (cur', vs', sbs', cs'), s')"
        by (auto simp: demotes_def Let_def split: option.splits if_splits)
      from Cons.IH[OF step cur len] False RaftStandBy show ?thesis by simp
    next
      case RaftSpare
      with False Cons.prems(1) have step: "Rebalance_group env m thr (Suc i) rest
          (cur, vs, sbs, cs @ [Address info]) s = (Inr (cur', vs', sbs', cs'), s')"
        by (auto simp: demotes_def Let_def split: option.splits if_splits)
      from Cons.IH[OF step cur len] False RaftSpare show ?thesis by simp
    qed
  qed
qed

text \<open>
  A run of \<^verbatim>\<open>Rebalance\<close> that ends without an error returns what the selection step
  yields on the roster after demotion and on the surviving voters and stand-bys and the
  spares.
\<close>

lemma Rebalance_returns:
  assumes "gateway_currentRaftNodes env s = Inr roster"
    and "fst (Rebalance env s) = (address, proposed, None)"
  shows "(address, proposed, None) =
     (if length (surviving env s RaftVoter roster) < MaxVoters \<and>
         1 < length (surviving env s RaftVoter roster) then
        Rebalance_select (nodesByAddress_loop (nodes (Cluster s)) Map.empty) RaftVoter
          (map Address (surviving env s RaftStandBy roster @ filter (\<lambda>n. Role n = RaftSpare) roster))
          (after_demotion env s roster)
      else if length (surviving env s RaftStandBy roster) < MaxStandBys then
        Rebalance_select (nodesByAddress_loop (nodes (Cluster s)) Map.empty) RaftStandBy
          (map Address (filter (\<lambda>n. Role n = RaftSpare) roster))
          (after_demotion env s roster)
      else ([], None, None))"
proof -
  let ?m = "nodesByAddress_loop (nodes (Cluster s)) Map.empty"
  let ?thr = "offline_threshold (Cluster s)"
  have tx: "Transaction (Cluster s) (Rebalance_tx env) = (Inr (?thr, ?m), Cluster s)"
    using assms
    by (auto simp: Rebalance_def Transaction_def Rebalance_tx_def Nodes_def Let_def
        split: option.splits sum.splits prod.splits)
  obtain r s1 where grp: "Rebalance_group env ?m ?thr 0 roster (roster, [], [], []) s = (r, s1)"
    by (cases "Rebalance_group env ?m ?thr 0 roster (roster, [], [], []) s")
  obtain cur vs sbs cs where r: "r = Inr (cur, vs, sbs, cs)"
    using assms tx grp by (cases r) (auto simp: Rebalance_def)
  have res: "cur = after_demotion env s roster \<and>
             vs = map Address (surviving env s RaftVoter roster) \<and>
             sbs = map Address (surviving env s RaftStandBy roster) \<and>
             cs = map Address (filter (\<lambda>n. Role n = RaftSpare) roster)"
    using Rebalance_group_result[OF grp[unfolded r], of "[]"]
    by (simp add: after_demotion_def surviving_def demoted_def)
  have "fst (Rebalance env s) =
     (if length (surviving env s RaftVoter roster) < MaxVoters \<and>
         1 < length (surviving env s RaftVoter roster) then
        Rebalance_select ?m RaftVoter
          (map Address (surviving env s RaftStandBy roster @ filter (\<lambda>n. Role n = RaftSpare) roster))
          (after_demotion env s roster)
      else if length (surviving env s RaftStandBy roster) < MaxStandBys then
        Rebalance_select ?m RaftStandBy
          (map Address (filter (\<lambda>n. Role n = RaftSpare) roster))
          (after_demotion env s roster)
      else ([], None, None))"
    using assms(1) tx grp r res by (simp add: Rebalance_def)
  with assms(2) show ?thesis by simp
qed

lemma Rebalance_assign_length:
  "length (Rebalance_assign address role i rest cur) = length cur"
  by (induction rest arbitrary: i) auto

lemma Rebalance_assign_nth:
  "j < length cur \<Longrightarrow>
     Rebalance_assign address role i rest cur ! j = cur ! j \<or>
     Rebalance_assign address role i rest cur ! j = (cur ! j)\<lparr>Role := role\<rparr>"
proof (induction rest arbitrary: i)
  case Nil
  then show ?case by simp
next
  case (Cons x rest)
  show ?case
  proof (cases "Address x = address")
    case True
    then show ?thesis
      using Cons.prems by (cases "i = j") simp_all
  next
    case False
    then show ?thesis
      using Cons.IH[OF Cons.prems] by simp
  qed
qed

lemma Rebalance_assign_distinct:
  assumes "cur = pre @ rest" and "length pre = i"
    and "address \<notin> Address ` set pre" and "address \<in> Address ` set rest"
    and "distinct (map Address cur)"
  shows "Rebalance_assign address role i rest cur =
     map (\<lambda>n. if Address n = address then n\<lparr>Role := role\<rparr> else n) cur"
  using assms
proof (induction rest arbitrary: pre i)
  case Nil
  then show ?case by simp
next
  case (Cons x rest)
  show ?case
  proof (cases "Address x = address")
    case True
    have "address \<notin> Address ` set rest"
      using Cons.prems(1,5) True by auto
    then have "map (\<lambda>n. if Address n = address then n\<lparr>Role := role\<rparr> else n) rest = rest"
      by (induction rest) auto
    moreover have "map (\<lambda>n. if Address n = address then n\<lparr>Role := role\<rparr> else n) pre = pre"
      using Cons.prems(3) by (induction pre) auto
    moreover have "cur ! i = x"
      using Cons.prems(1,2) by auto
    ultimately show ?thesis
      using True Cons.prems(1,2) by (simp add: list_update_append)
  next
    case False
    have "Rebalance_assign address role (Suc i) rest cur =
        map (\<lambda>n. if Address n = address then n\<lparr>Role := role\<rparr> else n) cur"
      by (rule Cons.IH[where pre="pre @ [x]"]) (use Cons.prems False in auto)
    with False show ?thesis by simp
  qed
qed

lemma nodesByAddress_loop_key:
  "\<forall>k v. m k = Some v \<longrightarrow> NodeInfo.Address v = k \<Longrightarrow>
     nodesByAddress_loop ns m k = Some v \<Longrightarrow> NodeInfo.Address v = k"
proof (induction ns arbitrary: m)
  case Nil
  then show ?case by simp
next
  case (Cons n ns)
  have inv: "\<forall>k v. (m(NodeInfo.Address n \<mapsto> n)) k = Some v \<longrightarrow> NodeInfo.Address v = k"
  proof (intro allI impI)
    fix k' v'
    assume a: "(m(NodeInfo.Address n \<mapsto> n)) k' = Some v'"
    show "NodeInfo.Address v' = k'"
    proof (cases "k' = NodeInfo.Address n")
      case True
      with a have "v' = n" by simp
      with True show ?thesis by simp
    next
      case False
      with a have "m k' = Some v'" by simp
      with Cons.prems(1) show ?thesis by blast
    qed
  qed
  from Cons.prems(2) have "nodesByAddress_loop ns (m(NodeInfo.Address n \<mapsto> n)) k = Some v"
    by (simp only: nodesByAddress_loop.simps)
  with inv show ?case
    by (rule Cons.IH)
qed

lemma nodesByAddress_loop_dom_kept:
  "k \<in> dom m \<Longrightarrow> k \<in> dom (nodesByAddress_loop ns m)"
proof (induction ns arbitrary: m)
  case Nil
  then show ?case by simp
next
  case (Cons n ns)
  have "k \<in> dom (m(NodeInfo.Address n \<mapsto> n))"
    using Cons.prems by simp
  then have "k \<in> dom (nodesByAddress_loop ns (m(NodeInfo.Address n \<mapsto> n)))"
    by (rule Cons.IH)
  then show ?case
    by (simp only: nodesByAddress_loop.simps)
qed

lemma nodesByAddress_loop_dom:
  "k \<in> NodeInfo.Address ` set ns \<Longrightarrow> k \<in> dom (nodesByAddress_loop ns m)"
proof (induction ns arbitrary: m)
  case Nil
  then show ?case by simp
next
  case (Cons n ns)
  show ?case
  proof (cases "NodeInfo.Address n = k")
    case True
    then have "k \<in> dom (m(NodeInfo.Address n \<mapsto> n))" by simp
    then have "k \<in> dom (nodesByAddress_loop ns (m(NodeInfo.Address n \<mapsto> n)))"
      by (rule nodesByAddress_loop_dom_kept)
    then show ?thesis
      by (simp only: nodesByAddress_loop.simps)
  next
    case False
    then have "k \<in> NodeInfo.Address ` set ns"
      using Cons.prems by auto
    then have "k \<in> dom (nodesByAddress_loop ns (m(NodeInfo.Address n \<mapsto> n)))"
      by (rule Cons.IH)
    then show ?thesis
      by (simp only: nodesByAddress_loop.simps)
  qed
qed

lemma lookup_registered:
  assumes "k \<in> NodeInfo.Address ` set ns"
  shows "NodeInfo.Address (lookup (nodesByAddress_loop ns Map.empty) k) = k"
proof -
  obtain v where v: "nodesByAddress_loop ns Map.empty k = Some v"
    using nodesByAddress_loop_dom[of k ns Map.empty] assms by auto
  then have "NodeInfo.Address v = k"
    using nodesByAddress_loop_key[of Map.empty ns k v] by simp
  with v show ?thesis by (simp add: lookup_def)
qed

lemma after_demotion_Address:
  "map Address (after_demotion env s roster) = map Address roster"
  by (induction roster) (auto simp: after_demotion_def)

lemma after_demotion_voter:
  "i < length roster \<Longrightarrow> Role (after_demotion env s roster ! i) = RaftVoter \<Longrightarrow>
     Role (roster ! i) = RaftVoter"
  by (auto simp: after_demotion_def split: if_splits)

lemma surviving_le:
  "length (surviving env s role roster) \<le> length (filter (\<lambda>n. Role n = role) roster)"
  by (induction roster) (auto simp: surviving_def)


text \<open>
  C2, as the code has it. When the current roster contains exactly one voter and
  \<^verbatim>\<open>Rebalance\<close> ends without an error:
  \<^item> no member is promoted to voter: a returned roster has the length of the current
    one, and each of its voters is a voter of the current roster at the same position;
  \<^item> when at least \<^verbatim>\<open>MaxStandBys\<close> stand-bys survive the liveness pass, the result is
    "nothing to do": the empty address and no roster;
  \<^item> with fewer surviving stand-bys and no spare in the roster, the result is the empty
    address and the roster after demotion;
  \<^item> with fewer surviving stand-bys and a spare, the address is the one of the registry
    row of the first spare in roster order; when it is empty (no row) the roster after
    demotion is returned, and otherwise the roster after demotion in which the first
    entry with that address is made stand-by;
  \<^item> on a roster with distinct, non-empty addresses that all have a registry row, that
    address is the first spare's own, and the returned roster is the roster after
    demotion with exactly that spare made stand-by.
\<close>

theorem Rebalance_single_voter_never_promotes_to_voter:
  assumes "gateway_currentRaftNodes env s = Inr roster"
    and "length (filter (\<lambda>n. Role n = RaftVoter) roster) = 1"
    and "fst (Rebalance env s) = (address, proposed, None)"
  shows "(\<forall>r. proposed = Some r \<longrightarrow>
            length r = length roster \<and>
            (\<forall>i<length roster. Role (r ! i) = RaftVoter \<longrightarrow> Role (roster ! i) = RaftVoter)) \<and>
         (MaxStandBys \<le> length (surviving env s RaftStandBy roster) \<longrightarrow>
            address = [] \<and> proposed = None) \<and>
         (length (surviving env s RaftStandBy roster) < MaxStandBys \<longrightarrow>
            (case filter (\<lambda>n. Role n = RaftSpare) roster of
               [] \<Rightarrow> address = [] \<and> proposed = Some (after_demotion env s roster)
             | c # _ \<Rightarrow>
                 address = NodeInfo.Address
                   (lookup (nodesByAddress_loop (nodes (Cluster s)) Map.empty) (Address c)) \<and>
                 proposed = Some
                   (if address = [] then after_demotion env s roster
                    else Rebalance_assign address RaftStandBy 0
                           (after_demotion env s roster) (after_demotion env s roster)))) \<and>
         (length (surviving env s RaftStandBy roster) < MaxStandBys \<and>
          distinct (map Address roster) \<and>
          (\<forall>n\<in>set roster. Address n \<noteq> [] \<and>
             Address n \<in> NodeInfo.Address ` set (nodes (Cluster s))) \<longrightarrow>
            (case filter (\<lambda>n. Role n = RaftSpare) roster of
               [] \<Rightarrow> address = [] \<and> proposed = Some (after_demotion env s roster)
             | c # _ \<Rightarrow>
                 address = Address c \<and>
                 proposed = Some
                   (map (\<lambda>n. if Address n = Address c then n\<lparr>Role := RaftStandBy\<rparr> else n)
                      (after_demotion env s roster))))"
proof -
  let ?m = "nodesByAddress_loop (nodes (Cluster s)) Map.empty"
  let ?cur = "after_demotion env s roster"
  let ?spares = "filter (\<lambda>n. Role n = RaftSpare) roster"
  have "length (surviving env s RaftVoter roster) \<le> 1"
    using surviving_le[of env s RaftVoter roster] assms(2) by simp
  then have ret: "(address, proposed, None) =
      (if length (surviving env s RaftStandBy roster) < MaxStandBys
       then Rebalance_select ?m RaftStandBy (map Address ?spares) ?cur else ([], None, None))"
    using Rebalance_returns[OF assms(1,3)] by simp
  have len: "length ?cur = length roster"
    by (simp add: after_demotion_def)
  have first: "length r = length roster \<and>
      (\<forall>i<length roster. Role (r ! i) = RaftVoter \<longrightarrow> Role (roster ! i) = RaftVoter)"
    if r: "proposed = Some r" for r
  proof -
    from ret r have sel: "(address, Some r, None) = Rebalance_select ?m RaftStandBy (map Address ?spares) ?cur"
      by (simp split: if_splits)
    then have cases: "r = ?cur \<or> r = Rebalance_assign address RaftStandBy 0 ?cur ?cur"
      by (auto simp: Rebalance_select_def Let_def split: if_splits)
    then have l: "length r = length roster"
      using len by (auto simp: Rebalance_assign_length)
    have "Role (roster ! i) = RaftVoter" if i: "i < length roster" and v: "Role (r ! i) = RaftVoter" for i
    proof -
      have "r ! i = ?cur ! i \<or> r ! i = (?cur ! i)\<lparr>Role := RaftStandBy\<rparr>"
        using cases Rebalance_assign_nth[of i ?cur address RaftStandBy 0 ?cur] i len by auto
      with v have "Role (?cur ! i) = RaftVoter" by auto
      with i show ?thesis by (rule after_demotion_voter)
    qed
    with l show ?thesis by blast
  qed
  have second: "address = [] \<and> proposed = None"
    if "MaxStandBys \<le> length (surviving env s RaftStandBy roster)"
    using ret that by simp
  have third: "case ?spares of
         [] \<Rightarrow> address = [] \<and> proposed = Some ?cur
       | c # _ \<Rightarrow>
           address = NodeInfo.Address (lookup ?m (Address c)) \<and>
           proposed = Some (if address = [] then ?cur
                            else Rebalance_assign address RaftStandBy 0 ?cur ?cur)"
    if few: "length (surviving env s RaftStandBy roster) < MaxStandBys"
  proof -
    from ret few have sel: "(address, proposed, None) =
        Rebalance_select ?m RaftStandBy (map Address ?spares) ?cur"
      by simp
    then show ?thesis
      by (cases ?spares) (auto simp: Rebalance_select_def Let_def split: if_splits)
  qed
  have fourth: "case ?spares of
         [] \<Rightarrow> address = [] \<and> proposed = Some ?cur
       | c # _ \<Rightarrow>
           address = Address c \<and>
           proposed = Some (map (\<lambda>n. if Address n = Address c then n\<lparr>Role := RaftStandBy\<rparr> else n) ?cur)"
    if few: "length (surviving env s RaftStandBy roster) < MaxStandBys"
      and dist: "distinct (map Address roster)"
      and reg: "\<forall>n\<in>set roster. Address n \<noteq> [] \<and>
             Address n \<in> NodeInfo.Address ` set (nodes (Cluster s))"
  proof (cases ?spares)
    case Nil
    with third[OF few] show ?thesis by simp
  next
    case (Cons c cs)
    then have "c \<in> set ?spares" by simp
    then have c: "c \<in> set roster" by simp
    then have ne: "Address c \<noteq> []"
      and row: "Address c \<in> NodeInfo.Address ` set (nodes (Cluster s))"
      using reg by auto
    have look: "NodeInfo.Address (lookup ?m (Address c)) = Address c"
      using row by (rule lookup_registered)
    have "Address c \<in> set (map Address ?cur)"
      using c by (simp add: after_demotion_Address)
    then have inn: "Address c \<in> Address ` set ?cur" by simp
    have "distinct (map Address ?cur)"
      using dist by (simp add: after_demotion_Address)
    then have "Rebalance_assign (Address c) RaftStandBy 0 ?cur ?cur =
        map (\<lambda>n. if Address n = Address c then n\<lparr>Role := RaftStandBy\<rparr> else n) ?cur"
      using inn by (intro Rebalance_assign_distinct[where pre="[]"]) simp_all
    with third[OF few] Cons look ne show ?thesis
      by simp
  qed
  from first second third fourth show ?thesis by blast
qed

theorem Rebalance_single_voter_never_promotes_to_voter_witness:
  "gateway_currentRaftNodes (example_env {})
     (example_state
        [\<lparr>ID = 1, Address = ''a'', Role = RaftVoter\<rparr>, \<lparr>ID = 2, Address = ''b'', Role = RaftStandBy\<rparr>,
         \<lparr>ID = 3, Address = ''c'', Role = RaftStandBy\<rparr>, \<lparr>ID = 4, Address = ''d'', Role = RaftSpare\<rparr>]
        [member 1 ''n1'' ''a'' 990 [''database''], member 2 ''n2'' ''b'' 990 [],
         member 3 ''n3'' ''c'' 990 [], member 4 ''n4'' ''d'' 990 []]) =
     Inr [\<lparr>ID = 1, Address = ''a'', Role = RaftVoter\<rparr>, \<lparr>ID = 2, Address = ''b'', Role = RaftStandBy\<rparr>,
          \<lparr>ID = 3, Address = ''c'', Role = RaftStandBy\<rparr>, \<lparr>ID = 4, Address = ''d'', Role = RaftSpare\<rparr>] \<and>
   fst (Rebalance (example_env {})
     (example_state
        [\<lparr>ID = 1, Address = ''a'', Role = RaftVoter\<rparr>, \<lparr>ID = 2, Address = ''b'', Role = RaftStandBy\<rparr>,
         \<lparr>ID = 3, Address = ''c'', Role = RaftStandBy\<rparr>, \<lparr>ID = 4, Address = ''d'', Role = RaftSpare\<rparr>]
        [member 1 ''n1'' ''a'' 990 [''database''], member 2 ''n2'' ''b'' 990 [],
         member 3 ''n3'' ''c'' 990 [], member 4 ''n4'' ''d'' 990 []])) = ([], None, None) \<and>
   gateway_currentRaftNodes (example_env {})
     (example_state
        [\<lparr>ID = 1, Address = ''a'', Role = RaftVoter\<rparr>, \<lparr>ID = 2, Address = ''b'', Role = RaftStandBy\<rparr>]
        [member 1 ''n1'' ''a'' 990 [''database''], member 2 ''n2'' ''b'' 990 []]) =
     Inr [\<lparr>ID = 1, Address = ''a'', Role = RaftVoter\<rparr>, \<lparr>ID = 2, Address = ''b'', Role = RaftStandBy\<rparr>] \<and>
   fst (Rebalance (example_env {})
     (example_state
        [\<lparr>ID = 1, Address = ''a'', Role = RaftVoter\<rparr>, \<lparr>ID = 2, Address = ''b'', Role = RaftStandBy\<rparr>]
        [member 1 ''n1'' ''a'' 990 [''database''], member 2 ''n2'' ''b'' 990 []])) =
     ([],
      Some [\<lparr>ID = 1, Address = ''a'', Role = RaftVoter\<rparr>, \<lparr>ID = 2, Address = ''b'', Role = RaftStandBy\<rparr>],
      None)"
proof -
  let ?roster = "[\<lparr>ID = 1, Address = ''a'', Role = RaftVoter\<rparr>, \<lparr>ID = 2, Address = ''b'', Role = RaftStandBy\<rparr>,
         \<lparr>ID = 3, Address = ''c'', Role = RaftStandBy\<rparr>, \<lparr>ID = 4, Address = ''d'', Role = RaftSpare\<rparr>]"
  let ?s = "example_state ?roster
        [member 1 ''n1'' ''a'' 990 [''database''], member 2 ''n2'' ''b'' 990 [],
         member 3 ''n3'' ''c'' 990 [], member 4 ''n4'' ''d'' 990 []]"
  let ?roster2 = "[\<lparr>ID = 1, Address = ''a'', Role = RaftVoter\<rparr>, \<lparr>ID = 2, Address = ''b'', Role = RaftStandBy\<rparr>]"
  let ?s2 = "example_state ?roster2 [member 1 ''n1'' ''a'' 990 [''database''], member 2 ''n2'' ''b'' 990 []]"
  have r: "gateway_currentRaftNodes (example_env {}) ?s = Inr ?roster"
    by (simp add: gateway_currentRaftNodes_def example_env_def example_state_def)
  have v: "length (filter (\<lambda>n. Role n = RaftVoter) ?roster) = 1"
    by simp
  have ok: "fst (Rebalance (example_env {}) ?s) = ([], None, None)"
    by (simp add: Rebalance_def gateway_currentRaftNodes_def Transaction_def Rebalance_tx_def
      Nodes_def lookup_def IsOffline_def Rebalance_select_def MaxVoters_def MaxStandBys_def
      example_env_def example_state_def member_def Let_def)
  have r2: "gateway_currentRaftNodes (example_env {}) ?s2 = Inr ?roster2"
    by (simp add: gateway_currentRaftNodes_def example_env_def example_state_def)
  have v2: "length (filter (\<lambda>n. Role n = RaftVoter) ?roster2) = 1"
    by simp
  have ok2: "fst (Rebalance (example_env {}) ?s2) = ([], Some ?roster2, None)"
    by (simp add: Rebalance_def gateway_currentRaftNodes_def Transaction_def Rebalance_tx_def
      Nodes_def lookup_def IsOffline_def Rebalance_select_def MaxVoters_def MaxStandBys_def
      example_env_def example_state_def member_def Let_def)
  show ?thesis
    using r ok r2 ok2
      Rebalance_single_voter_never_promotes_to_voter[OF r v ok]
      Rebalance_single_voter_never_promotes_to_voter[OF r2 v2 ok2]
    by simp
qed

text \<open>
  C2, as the claim states it, fails: with one voter, no stand-by and one spare, all
  online, \<^verbatim>\<open>Rebalance\<close> proposes the spare \<open>b\<close> as stand-by; the result is not
  "nothing to do".
\<close>

theorem Rebalance_single_voter_promotes_spare_to_stand_by:
  "fst (Rebalance (example_env {})
     (example_state
        [\<lparr>ID = 1, Address = ''a'', Role = RaftVoter\<rparr>, \<lparr>ID = 2, Address = ''b'', Role = RaftSpare\<rparr>]
        [member 1 ''n1'' ''a'' 990 [''database''], member 2 ''n2'' ''b'' 990 []])) =
     (''b'',
      Some [\<lparr>ID = 1, Address = ''a'', Role = RaftVoter\<rparr>, \<lparr>ID = 2, Address = ''b'', Role = RaftStandBy\<rparr>],
      None) \<and>
   fst (Rebalance (example_env {})
     (example_state
        [\<lparr>ID = 1, Address = ''a'', Role = RaftVoter\<rparr>, \<lparr>ID = 2, Address = ''b'', Role = RaftSpare\<rparr>]
        [member 1 ''n1'' ''a'' 990 [''database''], member 2 ''n2'' ''b'' 990 []])) \<noteq> ([], None, None)"
  by (simp add: Rebalance_def gateway_currentRaftNodes_def Transaction_def Rebalance_tx_def
      Nodes_def lookup_def IsOffline_def Rebalance_select_def MaxVoters_def MaxStandBys_def
      example_env_def example_state_def member_def Let_def)




end
